theory Spec2Isabelle
  imports Main
begin

section \<open>Errors\<close>

text \<open>
  The resolvers of \<^verbatim>\<open>src/app/apollo/resolvers/channel.js\<close> throw the error classes they
  import from \<^verbatim>\<open>./common\<close>. The only test the file makes on a caught error is
  \<^verbatim>\<open>err instanceof BasicRazeeError\<close>. Every value thrown that is not one of these
  classes (a ReferenceError, a TypeError, a failure of the object-store client, of the
  cipher, of a stream or of the manifest parser) is an \<open>OtherError\<close>.
\<close>

datatype error =
    NotFoundError string
  | RazeeValidationError string
  | RazeeForbiddenError string
  | BasicRazeeError string
  | RazeeQueryError string
  | OtherError string

text \<open>
  Modelled from the spec: the class hierarchy is declared in \<^verbatim>\<open>./common\<close>, which is not
  among the sources. The spec calls ValidationError, NotFoundError, DependencyError and
  AuthorizationError the typed domain errors; the file's generic failure
  \<^verbatim>\<open>RazeeQueryError\<close> is imported from the same module and taken to extend the base
  class as well.
\<close>

fun instanceof_BasicRazeeError :: "error \<Rightarrow> bool" where
  "instanceof_BasicRazeeError (OtherError m) = False"
| "instanceof_BasicRazeeError e = True"

section \<open>Data model\<close>

record organization =
  o_id :: string
  o_orgKeys :: "string list"

text \<open>An entry of a channel's \<^verbatim>\<open>versions\<close> array (the version summary).\<close>

record versionObj =
  v_uuid :: string
  v_name :: string
  v_description :: "string option"
  v_location :: string
  v_created :: nat

record channel =
  c_id :: string
  c_uuid :: string
  c_org_id :: string
  c_name :: string
  c_versions :: "versionObj list"
  c_tags :: "string list"
  c_ownerId :: string
  c_kubeOwnerName :: string

record deployableVersion =
  d_id :: string
  d_org_id :: string
  d_uuid :: string
  d_channel_id :: string
  d_channelName :: string
  d_name :: string
  d_description :: "string option"
  d_location :: string
  d_content :: string
  d_iv :: string
  d_type :: string
  d_ownerId :: string
  d_kubeOwnerName :: string
  d_created :: nat

record subscription =
  s_uuid :: string
  s_org_id :: string
  s_channel_uuid :: string
  s_version_uuid :: string
  s_channelName :: string

text \<open>
  The persistent state an invocation works on: the four collections reached through
  \<^verbatim>\<open>context.models\<close>, each a list in insertion order, and the object store behind
  \<^verbatim>\<open>S3ClientClass\<close> (its buckets, and its objects keyed by bucket and path).
\<close>

record models =
  Organization :: "organization list"
  Channel :: "channel list"
  DeployableVersion :: "deployableVersion list"
  Subscription :: "subscription list"
  S3_buckets :: "string list"
  S3_objects :: "((string \<times> string) \<times> string) list"

datatype action = READ | CREATE | UPDATE | DELETE | MANAGEVERSION

datatype rtype = CHANNEL

text \<open>
  What an object-store client keeps of the configuration it was constructed with by
  \<^verbatim>\<open>new S3ClientClass(conf)\<close>: the object-store section of \<^verbatim>\<open>conf\<close>.
\<close>

record s3Client =
  endpoint :: "string option"
  channelBucket :: string

text \<open>
  Everything an invocation reads that is not in the collections: the request context
  (\<^verbatim>\<open>me\<close>, \<^verbatim>\<open>req_id\<close>, the translation function \<^verbatim>\<open>req.t\<close>), the configuration
  \<^verbatim>\<open>conf.s3\<close>, the limits of \<^verbatim>\<open>../models/const\<close>, and the answers of the
  collaborators that are imported but not part of the sources, the builtins of the
  language among them (\<^verbatim>\<open>String.prototype.toLowerCase\<close>, the \<^verbatim>\<open>pathname\<close> of
  \<^verbatim>\<open>new URL\<close>, \<^verbatim>\<open>decodeURIComponent\<close>). A collaborator that can throw returns
  \<open>error + 'a\<close> or \<open>error option\<close>. What a call of the object-store client answers
  depends on the client, that is on the configuration it was constructed with.
  \<open>UUID e k\<close> is what the \<open>k\<close>-th call of \<^verbatim>\<open>UUID()\<close> in the invocation returns, and
  \<open>settle_order\<close> says in which order the object-store deletions of a fan-out settle.
\<close>

record env =
  me_id :: string
  req_id :: string
  req_t :: "string \<Rightarrow> (string \<times> string) list \<Rightarrow> string"
  validAuth :: "string \<Rightarrow> action \<Rightarrow> rtype \<Rightarrow> string \<Rightarrow> (string \<times> string) option \<Rightarrow> error option"
  getAllowedChannels :: "models \<Rightarrow> string \<Rightarrow> action \<Rightarrow> rtype \<Rightarrow> error + channel list"
  filterChannelsToAllowed :: "string \<Rightarrow> action \<Rightarrow> rtype \<Rightarrow> channel list \<Rightarrow> error + channel list"
  applyQueryFieldsToChannels :: "channel list \<Rightarrow> error option"
  applyQueryFieldsToDeployableVersions :: "deployableVersion list \<Rightarrow> error option"
  getKubeOwnerName :: "error + string"
  conf_s3_endpoint :: "string option"
  conf_s3_channelBucket :: string
  CHANNEL_LIMITS_MAX_TOTAL :: nat
  CHANNEL_VERSION_LIMITS_MAX_TOTAL :: nat
  CHANNEL_VERSION_YAML_MAX_SIZE_LIMIT_MB :: nat
  UUID :: "nat \<Rightarrow> string"
  randomBytes16 :: string
  toBase64 :: "string \<Rightarrow> string"
  toLowerCase :: "string \<Rightarrow> string"
  now :: nat
  yaml_safeLoadAll :: "string \<Rightarrow> error option"
  encryptOrgData :: "string option \<Rightarrow> string \<Rightarrow> error + string"
  decryptOrgData :: "string option \<Rightarrow> string \<Rightarrow> error + string"
  URL_pathname :: "string \<Rightarrow> error + string"
  decodeURIComponent :: "string \<Rightarrow> error + string"
  s3_ensureBucketExists_fails :: "s3Client \<Rightarrow> string \<Rightarrow> error option"
  s3_upload_fails :: "s3Client \<Rightarrow> string \<Rightarrow> string \<Rightarrow> error option"
  s3_url :: "s3Client \<Rightarrow> string \<Rightarrow> string \<Rightarrow> string"
  s3_encrypt :: "string option \<Rightarrow> string \<Rightarrow> string \<Rightarrow> string"
  s3_decrypt :: "string option \<Rightarrow> string \<Rightarrow> string \<Rightarrow> error + string"
  s3_getObject_fails :: "s3Client \<Rightarrow> string option \<Rightarrow> string \<Rightarrow> error option"
  s3_deleteObject_fails :: "s3Client \<Rightarrow> string option \<Rightarrow> string \<Rightarrow> error option"
  settle_order :: "nat list"

section \<open>The collection operations the resolvers call\<close>

definition findOne :: "('a \<Rightarrow> bool) \<Rightarrow> 'a list \<Rightarrow> 'a option" where
  "findOne P xs = find P xs"

fun updateOne :: "('a \<Rightarrow> bool) \<Rightarrow> ('a \<Rightarrow> 'a) \<Rightarrow> 'a list \<Rightarrow> 'a list" where
  "updateOne P f [] = []"
| "updateOne P f (x # xs) = (if P x then f x # xs else x # updateOne P f xs)"

definition updateMany :: "('a \<Rightarrow> bool) \<Rightarrow> ('a \<Rightarrow> 'a) \<Rightarrow> 'a list \<Rightarrow> 'a list" where
  "updateMany P f xs = map (\<lambda>x. if P x then f x else x) xs"

fun deleteOne :: "('a \<Rightarrow> bool) \<Rightarrow> 'a list \<Rightarrow> 'a list" where
  "deleteOne P [] = []"
| "deleteOne P (x # xs) = (if P x then xs else x # deleteOne P xs)"

definition deleteMany :: "('a \<Rightarrow> bool) \<Rightarrow> 'a list \<Rightarrow> 'a list" where
  "deleteMany P xs = filter (\<lambda>x. \<not> P x) xs"

definition count :: "('a \<Rightarrow> bool) \<Rightarrow> 'a list \<Rightarrow> nat" where
  "count P xs = length (filter P xs)"

definition create :: "'a \<Rightarrow> 'a list \<Rightarrow> 'a list" where
  "create x xs = xs @ [x]"

section \<open>Messages and the two catch blocks\<close>

definition dq :: string where
  "dq = [CHR 0x22]"

text \<open>
  A number that is passed as the parameter of a message is passed as its decimal
  numeral, which is how the interpolation of a template prints it.
\<close>

fun String_of_nat :: "nat \<Rightarrow> string" where
  "String_of_nat n =
     (if n < 10 then [''0123456789'' ! n]
      else String_of_nat (n div 10) @ [''0123456789'' ! (n mod 10)])"

declare String_of_nat.simps [simp del]

definition query_error_message :: "env \<Rightarrow> string \<Rightarrow> string" where
  "query_error_message e queryName =
     req_t e ''Query {{queryName}} error. MessageID: {{req_id}}.''
       [(''queryName'', queryName), (''req_id'', req_id e)]"

text \<open>
  The catch block of the queries \<^verbatim>\<open>channel\<close>, \<^verbatim>\<open>channelByName\<close>,
  \<^verbatim>\<open>channelsByTags\<close> and \<^verbatim>\<open>channelVersion\<close>: whatever was thrown is logged and a new
  \<^verbatim>\<open>RazeeQueryError\<close> is thrown in its place.
\<close>

definition catch_query :: "env \<Rightarrow> string \<Rightarrow> error + 'a \<Rightarrow> error + 'a" where
  "catch_query e queryName r =
     (case r of
        Inl err \<Rightarrow> Inl (RazeeQueryError (query_error_message e queryName))
      | Inr v \<Rightarrow> Inr v)"

text \<open>
  The catch block of the mutations \<^verbatim>\<open>addChannel\<close>, \<^verbatim>\<open>editChannel\<close>,
  \<^verbatim>\<open>removeChannel\<close> and \<^verbatim>\<open>removeChannelVersion\<close>: an instance of
  \<^verbatim>\<open>BasicRazeeError\<close> is thrown again as it is, anything else is replaced.
\<close>

definition catch_mutation :: "env \<Rightarrow> string \<Rightarrow> error + 'a \<Rightarrow> error + 'a" where
  "catch_mutation e queryName r =
     (case r of
        Inl err \<Rightarrow>
          (if instanceof_BasicRazeeError err then Inl err
           else Inl (RazeeQueryError (query_error_message e queryName)))
      | Inr v \<Rightarrow> Inr v)"

text \<open>
  A mutation returns its outcome together with the states of the store after each of
  its writes, in the order the writes are awaited. The store it leaves behind is the
  last of them, or the one it started from when it wrote nothing.
\<close>

type_synonym 'a outcome = "(error + 'a) \<times> models list"

definition final :: "models \<Rightarrow> 'a outcome \<Rightarrow> models" where
  "final s r = last (s # snd r)"

section \<open>editChannel\<close>

record editChannel_result =
  er_uuid :: string
  er_success :: bool
  er_name :: string
  er_tags :: "string list"

definition editChannel_try ::
  "env \<Rightarrow> models \<Rightarrow> string \<Rightarrow> string \<Rightarrow> string \<Rightarrow> string list \<Rightarrow> editChannel_result outcome" where
  "editChannel_try e s org_id uuid name tags =
     (case findOne (\<lambda>c. c_uuid c = uuid \<and> c_org_id c = org_id) (Channel s) of
        None \<Rightarrow>
          (Inl (NotFoundError (req_t e (''channel uuid '' @ dq @ ''{{uuid}}'' @ dq @ '' not found'')
                  [(''uuid'', uuid)])), [])
      | Some channel \<Rightarrow>
          (case validAuth e org_id UPDATE CHANNEL ''editChannel''
                  (Some (c_uuid channel, c_name channel)) of
             Some err \<Rightarrow> (Inl err, [])
           | None \<Rightarrow>
               (let s1 = s\<lparr>Channel :=
                            updateOne (\<lambda>c. c_org_id c = org_id \<and> c_uuid c = uuid)
                              (\<lambda>c. c\<lparr>c_name := name, c_tags := tags\<rparr>) (Channel s)\<rparr>;
                    s2 = s1\<lparr>Subscription :=
                            updateMany (\<lambda>u. s_org_id u = org_id \<and> s_channel_uuid u = uuid)
                              (\<lambda>u. u\<lparr>s_channelName := name\<rparr>) (Subscription s1)\<rparr>
                in (Inr \<lparr>er_uuid = uuid, er_success = True, er_name = name, er_tags = tags\<rparr>,
                    [s1, s2]))))"

definition editChannel ::
  "env \<Rightarrow> models \<Rightarrow> string \<Rightarrow> string \<Rightarrow> string \<Rightarrow> string list \<Rightarrow> editChannel_result outcome" where
  "editChannel e s org_id uuid name tags =
     (let r = editChannel_try e s org_id uuid name tags
      in (catch_mutation e ''editChannel'' (fst r), snd r))"

section \<open>Strings and arrays\<close>

text \<open>\<^verbatim>\<open>_.split(s, sep)\<close> for a one-character separator.\<close>

fun split :: "char \<Rightarrow> string \<Rightarrow> string list" where
  "split sep [] = [[]]"
| "split sep (c # cs) =
     (if c = sep then [] # split sep cs
      else (case split sep cs of [] \<Rightarrow> [[c]] | p # ps \<Rightarrow> (c # p) # ps))"

fun join :: "string \<Rightarrow> string list \<Rightarrow> string" where
  "join sep [] = []"
| "join sep [x] = x"
| "join sep (x # y # ys) = x @ sep @ join sep (y # ys)"

text \<open>\<^verbatim>\<open>_.first\<close> and \<^verbatim>\<open>Array.prototype.shift\<close> give \<^verbatim>\<open>undefined\<close> on an empty array.\<close>

definition first :: "'a list \<Rightarrow> 'a option" where
  "first xs = (case xs of [] \<Rightarrow> None | x # _ \<Rightarrow> Some x)"

definition findIndex :: "('a \<Rightarrow> bool) \<Rightarrow> 'a list \<Rightarrow> int" where
  "findIndex P xs = (if list_ex P xs then int (length (takeWhile (\<lambda>x. \<not> P x) xs)) else - 1)"

text \<open>
  \<^verbatim>\<open>xs.splice(i, 1)\<close>: a negative start counts from the end, and a start beyond the
  end removes nothing.
\<close>

definition splice1 :: "int \<Rightarrow> 'a list \<Rightarrow> 'a list" where
  "splice1 i xs =
     (let n = int (length xs);
          start = (if i < 0 then max (n + i) 0 else min i n)
      in take (nat start) xs @ drop (Suc (nat start)) xs)"

section \<open>The object-store client\<close>

text \<open>
  Modelled from the spec: \<^verbatim>\<open>S3ClientClass\<close> is \<^verbatim>\<open>../../s3/s3Client\<close>, which is not among
  the sources. The spec lists its interface: \<^verbatim>\<open>ensureBucket(name)\<close> (idempotent),
  \<^verbatim>\<open>put(bucket, key, bytes) -> locator\<close>, \<^verbatim>\<open>get(bucket, key) -> bytes\<close> and
  \<^verbatim>\<open>delete(bucket, key)\<close>. Every resolver that uses the object store constructs its
  client from the configuration, \<^verbatim>\<open>new S3ClientClass(conf)\<close>, and calls it with a bucket
  and a key. Each call can fail, as the environment says of the client and the call; a
  deletion that finds no object under the key deletes nothing and succeeds.
\<close>

definition S3ClientClass :: "env \<Rightarrow> s3Client" where
  "S3ClientClass e = \<lparr>endpoint = conf_s3_endpoint e, channelBucket = conf_s3_channelBucket e\<rparr>"

definition ensureBucketExists :: "env \<Rightarrow> s3Client \<Rightarrow> models \<Rightarrow> string \<Rightarrow> error + models" where
  "ensureBucketExists e s3Client s bucketName =
     (case s3_ensureBucketExists_fails e s3Client bucketName of
        Some err \<Rightarrow> Inl err
      | None \<Rightarrow>
          Inr (if bucketName \<in> set (S3_buckets s) then s
               else s\<lparr>S3_buckets := S3_buckets s @ [bucketName]\<rparr>))"

definition encryptAndUploadFile ::
  "env \<Rightarrow> s3Client \<Rightarrow> models \<Rightarrow> string \<Rightarrow> string \<Rightarrow> string \<Rightarrow> string option \<Rightarrow> string
     \<Rightarrow> error + (string \<times> models)" where
  "encryptAndUploadFile e s3Client s bucketName resourceName content orgKey iv =
     (case s3_upload_fails e s3Client bucketName resourceName of
        Some err \<Rightarrow> Inl err
      | None \<Rightarrow>
          Inr (s3_url e s3Client bucketName resourceName,
               s\<lparr>S3_objects :=
                    ((bucketName, resourceName), s3_encrypt e orgKey iv content)
                      # filter (\<lambda>kv. fst kv \<noteq> (bucketName, resourceName)) (S3_objects s)\<rparr>))"

definition getAndDecryptFile ::
  "env \<Rightarrow> s3Client \<Rightarrow> models \<Rightarrow> string option \<Rightarrow> string \<Rightarrow> string option \<Rightarrow> string
     \<Rightarrow> error + string" where
  "getAndDecryptFile e s3Client s bucketName path orgKey iv =
     (case s3_getObject_fails e s3Client bucketName path of
        Some err \<Rightarrow> Inl err
      | None \<Rightarrow>
          (case bucketName of
             None \<Rightarrow> Inl (OtherError ''no bucket'')
           | Some b \<Rightarrow>
               (case map_of (S3_objects s) (b, path) of
                  None \<Rightarrow> Inl (OtherError ''no such object'')
                | Some c \<Rightarrow> s3_decrypt e orgKey iv c)))"

definition deleteObject ::
  "env \<Rightarrow> s3Client \<Rightarrow> models \<Rightarrow> string option \<Rightarrow> string \<Rightarrow> error + models" where
  "deleteObject e s3Client s bucketName path =
     (case s3_deleteObject_fails e s3Client bucketName path of
        Some err \<Rightarrow> Inl err
      | None \<Rightarrow>
          Inr (s\<lparr>S3_objects :=
                   filter (\<lambda>kv. \<not> (Some (fst (fst kv)) = bucketName \<and> snd (fst kv) = path))
                     (S3_objects s)\<rparr>))"

text \<open>
  The bucket and the path of a resource locator: the path name of the URL is split at
  the slashes, the empty parts are dropped, the first part is the bucket and the others,
  joined again, are the path.
\<close>

definition bucket_and_path :: "string \<Rightarrow> string option \<times> string" where
  "bucket_and_path fullPath =
     (let parts = filter (\<lambda>p. p \<noteq> []) (split (CHR ''/'') fullPath)
      in (first parts, join ''/'' (tl parts)))"

definition deleteDeployableVersionFromS3 ::
  "env \<Rightarrow> models \<Rightarrow> deployableVersion \<Rightarrow> error + models" where
  "deleteDeployableVersionFromS3 e s deployableVersionObj =
     (case URL_pathname e (d_content deployableVersionObj) of
        Inl err \<Rightarrow> Inl err
      | Inr fullPath \<Rightarrow>
          (case bucket_and_path fullPath of
             (bucketName, path) \<Rightarrow>
               (let s3Client = S3ClientClass e
                in deleteObject e s3Client s bucketName path)))"

section \<open>Queries\<close>

definition Query_channels :: "env \<Rightarrow> models \<Rightarrow> string \<Rightarrow> error + channel list" where
  "Query_channels e s orgId =
     (let failure = Inl (NotFoundError
            (req_t e ''Query {{queryName}} find error. MessageID: {{req_id}}.''
               [(''queryName'', ''channels''), (''req_id'', req_id e)]))
      in (case getAllowedChannels e s orgId READ CHANNEL of
            Inl err \<Rightarrow> failure
          | Inr channels \<Rightarrow>
              (case applyQueryFieldsToChannels e channels of
                 Some err \<Rightarrow> failure
               | None \<Rightarrow> Inr channels)))"

definition Query_channel_try :: "env \<Rightarrow> models \<Rightarrow> string \<Rightarrow> string \<Rightarrow> error + channel" where
  "Query_channel_try e s orgId uuid =
     (case findOne (\<lambda>c. c_org_id c = orgId \<and> c_uuid c = uuid) (Channel s) of
        None \<Rightarrow>
          Inl (NotFoundError (req_t e ''Could not find the channel with uuid {{uuid}}.''
                 [(''uuid'', uuid)]))
      | Some channel \<Rightarrow>
          (case validAuth e orgId READ CHANNEL ''channel''
                  (Some (c_uuid channel, c_name channel)) of
             Some err \<Rightarrow> Inl err
           | None \<Rightarrow>
               (case applyQueryFieldsToChannels e [channel] of
                  Some err \<Rightarrow> Inl err
                | None \<Rightarrow> Inr channel)))"

definition Query_channel :: "env \<Rightarrow> models \<Rightarrow> string \<Rightarrow> string \<Rightarrow> error + channel" where
  "Query_channel e s orgId uuid = catch_query e ''channel'' (Query_channel_try e s orgId uuid)"

definition Query_channelByName_try :: "env \<Rightarrow> models \<Rightarrow> string \<Rightarrow> string \<Rightarrow> error + channel" where
  "Query_channelByName_try e s orgId name =
     (case findOne (\<lambda>c. c_org_id c = orgId \<and> c_name c = name) (Channel s) of
        None \<Rightarrow>
          Inl (NotFoundError (req_t e ''Could not find the channel with name {{name}}.''
                 [(''name'', name)]))
      | Some channel \<Rightarrow>
          (case validAuth e orgId READ CHANNEL ''channelByName''
                  (Some (c_uuid channel, c_name channel)) of
             Some err \<Rightarrow> Inl err
           | None \<Rightarrow>
               (case applyQueryFieldsToChannels e [channel] of
                  Some err \<Rightarrow> Inl err
                | None \<Rightarrow> Inr channel)))"

definition Query_channelByName :: "env \<Rightarrow> models \<Rightarrow> string \<Rightarrow> string \<Rightarrow> error + channel" where
  "Query_channelByName e s orgId name =
     catch_query e ''channelByName'' (Query_channelByName_try e s orgId name)"

definition Query_channelsByTags_try ::
  "env \<Rightarrow> models \<Rightarrow> string \<Rightarrow> string list \<Rightarrow> error + channel list" where
  "Query_channelsByTags_try e s orgId tags =
     (if length tags < 1 then
        Inl (RazeeValidationError ''Please supply one or more tags'')
      else
        (case filterChannelsToAllowed e orgId READ CHANNEL
                (filter (\<lambda>c. c_org_id c = orgId \<and> set tags \<subseteq> set (c_tags c)) (Channel s)) of
           Inl err \<Rightarrow> Inl err
         | Inr channels \<Rightarrow>
             (case applyQueryFieldsToChannels e channels of
                Some err \<Rightarrow> Inl err
              | None \<Rightarrow> Inr channels)))"

definition Query_channelsByTags ::
  "env \<Rightarrow> models \<Rightarrow> string \<Rightarrow> string list \<Rightarrow> error + channel list" where
  "Query_channelsByTags e s orgId tags =
     catch_query e ''channelsByTags'' (Query_channelsByTags_try e s orgId tags)"

text \<open>
  \<^verbatim>\<open>channelFilter\<close>: the channel is searched by its name when a name is given, and by
  its uuid otherwise.
\<close>

definition channelFilter :: "string \<Rightarrow> string option \<Rightarrow> string option \<Rightarrow> channel \<Rightarrow> bool" where
  "channelFilter org_id channelUuid channelName =
     (if channelName \<noteq> None \<and> channelName \<noteq> Some []
      then (\<lambda>c. Some (c_name c) = channelName \<and> c_org_id c = org_id)
      else (\<lambda>c. Some (c_uuid c) = channelUuid \<and> c_org_id c = org_id))"

text \<open>
  The body of the \<^verbatim>\<open>try\<close> block of \<^verbatim>\<open>channelVersion\<close>. When no channel is found, the
  argument of the message reads \<^verbatim>\<open>channel_uuid\<close>, a \<^verbatim>\<open>const\<close> of the same block
  that is declared three lines further down: the read throws a ReferenceError before the
  \<^verbatim>\<open>NotFoundError\<close> is constructed.
\<close>

definition channelVersion_try ::
  "env \<Rightarrow> models \<Rightarrow> string \<Rightarrow> string option \<Rightarrow> string option \<Rightarrow> string option
     \<Rightarrow> string option \<Rightarrow> string \<Rightarrow> error + deployableVersion" where
  "channelVersion_try e s org_id channelUuid versionUuid channelName versionName queryName =
     (case findOne (\<lambda>org. o_id org = org_id) (Organization s) of
        None \<Rightarrow>
          Inl (NotFoundError (req_t e ''Could not find the organization with ID {{org_id}}.''
                 [(''org_id'', org_id)]))
      | Some org \<Rightarrow>
     (let orgKey = first (o_orgKeys org) in
      case findOne (channelFilter org_id channelUuid channelName) (Channel s) of
        None \<Rightarrow>
          Inl (OtherError ''ReferenceError: Cannot access channel_uuid before initialization'')
      | Some channel \<Rightarrow>
     (case validAuth e org_id READ CHANNEL queryName (Some (c_uuid channel, c_name channel)) of
        Some err \<Rightarrow> Inl err
      | None \<Rightarrow>
     (case find (\<lambda>v. Some (v_uuid v) = versionUuid \<or> Some (v_name v) = versionName)
             (c_versions channel) of
        None \<Rightarrow>
          Inl (NotFoundError
                 (req_t e (''versionObj '' @ dq @ ''{{versionUuid}}'' @ dq
                             @ '' is not found for {{channel.name}}:{{channel.uuid}}'')
                    [(''versionUuid'', case versionUuid of None \<Rightarrow> ''undefined'' | Some u \<Rightarrow> u),
                     (''channel.name'', c_name channel), (''channel.uuid'', c_uuid channel)]))
      | Some versionObj \<Rightarrow>
     (case findOne (\<lambda>d. d_org_id d = org_id \<and> d_channel_id d = c_uuid channel
                          \<and> d_uuid d = v_uuid versionObj) (DeployableVersion s) of
        None \<Rightarrow>
          Inl (NotFoundError
                 (req_t e (''DeployableVersion is not found for {{channel.name}}:{{channel.uuid}}''
                             @ ''/{{versionObj.name}}:{{versionObj.uuid}}.'')
                    [(''channel.name'', c_name channel), (''channel.uuid'', c_uuid channel),
                     (''versionObj.name'', v_name versionObj),
                     (''versionObj.uuid'', v_uuid versionObj)]))
      | Some deployableVersionObj \<Rightarrow>
     (case applyQueryFieldsToDeployableVersions e [deployableVersionObj] of
        Some err \<Rightarrow> Inl err
      | None \<Rightarrow>
          (if v_location versionObj = ''mongo'' then
             (case decryptOrgData e orgKey (d_content deployableVersionObj) of
                Inl err \<Rightarrow> Inl err
              | Inr plain \<Rightarrow> Inr (deployableVersionObj\<lparr>d_content := plain\<rparr>))
           else if v_location versionObj = ''s3'' then
             (case URL_pathname e (d_content deployableVersionObj) of
                Inl err \<Rightarrow> Inl err
              | Inr fullPath \<Rightarrow>
                  (case bucket_and_path fullPath of
                     (bucketName, path) \<Rightarrow>
                       (let s3Client = S3ClientClass e
                        in case decodeURIComponent e path of
                             Inl err \<Rightarrow> Inl err
                           | Inr decoded \<Rightarrow>
                               (case getAndDecryptFile e s3Client s bucketName decoded orgKey
                                       (d_iv deployableVersionObj) of
                                  Inl err \<Rightarrow> Inl err
                                | Inr plain \<Rightarrow>
                                    Inr (deployableVersionObj\<lparr>d_content := plain\<rparr>)))))
           else
             Inl (BasicRazeeError
                    (req_t e (''versionObj.location='' @ dq @ ''{{versionObj.location}}'' @ dq
                                @ '' not implemented yet'')
                       [(''versionObj.location'', v_location versionObj)])))))))))"

text \<open>The name \<^verbatim>\<open>channelVersion\<close> logs and reports under, given its \<^verbatim>\<open>_queryName\<close>.\<close>

definition queryName_of :: "string option \<Rightarrow> string" where
  "queryName_of queryName_arg =
     (case queryName_arg of
        None \<Rightarrow> ''channelVersion''
      | Some q \<Rightarrow> (if q = [] then ''channelVersion'' else q @ ''/channelVersion''))"

definition Query_channelVersion ::
  "env \<Rightarrow> models \<Rightarrow> string \<Rightarrow> string option \<Rightarrow> string option \<Rightarrow> string option
     \<Rightarrow> string option \<Rightarrow> string option \<Rightarrow> error + deployableVersion" where
  "Query_channelVersion e s org_id channelUuid versionUuid channelName versionName queryName_arg =
     (let queryName = queryName_of queryName_arg
      in catch_query e queryName
           (channelVersion_try e s org_id channelUuid versionUuid channelName versionName
              queryName))"

definition Query_channelVersionByName ::
  "env \<Rightarrow> models \<Rightarrow> string \<Rightarrow> string option \<Rightarrow> string option \<Rightarrow> error + deployableVersion" where
  "Query_channelVersionByName e s org_id channelName versionName =
     Query_channelVersion e s org_id None None channelName versionName
       (Some ''channelVersionByName'')"

section \<open>addChannel\<close>

definition addChannel_try ::
  "env \<Rightarrow> models \<Rightarrow> string \<Rightarrow> string \<Rightarrow> string list \<Rightarrow> string outcome" where
  "addChannel_try e s org_id name tags =
     (case findOne (\<lambda>c. c_name c = name \<and> c_org_id c = org_id) (Channel s) of
        Some channel \<Rightarrow>
          (Inl (RazeeValidationError (req_t e ''The channel name {{name}} already exists.''
                  [(''name'', name)])), [])
      | None \<Rightarrow>
          (let total = count (\<lambda>c. c_org_id c = org_id) (Channel s) in
           if total \<ge> CHANNEL_LIMITS_MAX_TOTAL e then
             (Inl (RazeeValidationError
                     (req_t e ''Too many channels are registered under {{org_id}}.''
                        [(''org_id'', org_id)])), [])
           else
             (let uuid = UUID e 0 in
              case getKubeOwnerName e of
                Inl err \<Rightarrow> (Inl err, [])
              | Inr kubeOwnerName \<Rightarrow>
                  (Inr uuid,
                   [s\<lparr>Channel :=
                        create \<lparr>c_id = UUID e 1, c_uuid = uuid, c_org_id = org_id, c_name = name,
                                c_versions = [], c_tags = tags, c_ownerId = me_id e,
                                c_kubeOwnerName = kubeOwnerName\<rparr> (Channel s)\<rparr>]))))"

text \<open>The authorization check of \<^verbatim>\<open>addChannel\<close> stands before its \<^verbatim>\<open>try\<close> block.\<close>

definition addChannel ::
  "env \<Rightarrow> models \<Rightarrow> string \<Rightarrow> string \<Rightarrow> string list \<Rightarrow> string outcome" where
  "addChannel e s org_id name tags =
     (case validAuth e org_id CREATE CHANNEL ''addChannel'' None of
        Some err \<Rightarrow> (Inl err, [])
      | None \<Rightarrow>
          (let r = addChannel_try e s org_id name tags
           in (catch_mutation e ''addChannel'' (fst r), snd r)))"

section \<open>addChannelVersion\<close>

fun error_text :: "error \<Rightarrow> string" where
  "error_text (NotFoundError m) = m"
| "error_text (RazeeValidationError m) = m"
| "error_text (RazeeForbiddenError m) = m"
| "error_text (BasicRazeeError m) = m"
| "error_text (RazeeQueryError m) = m"
| "error_text (OtherError m) = m"

text \<open>
  The \<^verbatim>\<open>try\<close> block of \<^verbatim>\<open>addChannelVersion\<close> that reads the upload, measures the
  content and parses it. An upload, when there is one, replaces the \<^verbatim>\<open>content\<close>
  argument; \<open>Some (Inl err)\<close> is an upload whose promise or stream fails. The catch block
  throws a \<^verbatim>\<open>BasicRazeeError\<close> again and turns anything else into a validation error.
  \<^verbatim>\<open>Buffer.byteLength\<close> of a string counts its bytes, as \<open>length\<close> does here.
\<close>

definition load_content ::
  "env \<Rightarrow> string option \<Rightarrow> (error + string) option \<Rightarrow> error + string" where
  "load_content e content file =
     (let rethrow = (\<lambda>err.
            if instanceof_BasicRazeeError err then err
            else RazeeValidationError
                   (req_t e ''Provided YAML content is not valid: {{error}}''
                      [(''error'', error_text err)]))
      in case (case file of
                 Some upload \<Rightarrow> upload
               | None \<Rightarrow> (case content of
                            Some c \<Rightarrow> Inr c
                          | None \<Rightarrow> Inl (OtherError ''TypeError: byteLength of undefined''))) of
           Inl err \<Rightarrow> Inl (rethrow err)
         | Inr c \<Rightarrow>
             (if length c > CHANNEL_VERSION_YAML_MAX_SIZE_LIMIT_MB e * 1024 * 1024 then
                Inl (RazeeValidationError
                       (req_t e (''YAML file size should not be more than ''
                                   @ ''{{CHANNEL_VERSION_YAML_MAX_SIZE_LIMIT_MB}}mb'')
                          [(''CHANNEL_VERSION_YAML_MAX_SIZE_LIMIT_MB'',
                            String_of_nat (CHANNEL_VERSION_YAML_MAX_SIZE_LIMIT_MB e))]))
              else
                (case yaml_safeLoadAll e c of
                   Some err \<Rightarrow> Inl (rethrow err)
                 | None \<Rightarrow> Inr c)))"

text \<open>
  \<^verbatim>\<open>buf.getContents().toString('utf8')\<close> for a \<^verbatim>\<open>WritableStreamBuffer\<close> that was
  written the text: \<^verbatim>\<open>getContents\<close> gives \<^verbatim>\<open>false\<close> for a buffer that holds nothing,
  and the text of that is \<^verbatim>\<open>false\<close>.
\<close>

definition getContents_toString :: "string \<Rightarrow> string" where
  "getContents_toString written = (if written = [] then ''false'' else written)"

text \<open>
  The block of \<^verbatim>\<open>addChannelVersion\<close> that hands the content to the backend the
  configuration selects: with \<^verbatim>\<open>conf.s3.endpoint\<close> set, the bucket is ensured and the
  content is encrypted and uploaded, and the data of the record is the locator; otherwise
  the data is the text of the buffer the content was piped to, encrypted with the
  organization's key. The result is the location tag and the data, with the states of
  the store after the writes.
\<close>

definition store_content ::
  "env \<Rightarrow> models \<Rightarrow> string \<Rightarrow> channel \<Rightarrow> string \<Rightarrow> string option \<Rightarrow> string \<Rightarrow> string
     \<Rightarrow> (error + string \<times> string) \<times> models list" where
  "store_content e s org_id channel name orgKey content iv =
     (if conf_s3_endpoint e \<noteq> None \<and> conf_s3_endpoint e \<noteq> Some [] then
        (let resourceName = toLowerCase e org_id @ ''-'' @ c_uuid channel @ ''-'' @ name;
             bucketName = conf_s3_channelBucket e;
             s3Client = S3ClientClass e
         in case ensureBucketExists e s3Client s bucketName of
              Inl err \<Rightarrow> (Inl err, [])
            | Inr s1 \<Rightarrow>
                (case encryptAndUploadFile e s3Client s1 bucketName resourceName content orgKey
                        iv of
                   Inl err \<Rightarrow> (Inl err, [s1])
                 | Inr (url, s2) \<Rightarrow> (Inr (''s3'', url), [s1, s2])))
      else
        (case encryptOrgData e orgKey (getContents_toString content) of
           Inl err \<Rightarrow> (Inl err, [])
         | Inr data \<Rightarrow> (Inr (''mongo'', data), [])))"

record addChannelVersion_result =
  ar_success :: bool
  ar_versionUuid :: string

text \<open>
  The end of \<^verbatim>\<open>addChannelVersion\<close>: the version record is created, and then the
  summary is pushed to the \<^verbatim>\<open>versions\<close> of the channel. \<open>written\<close> are the states
  the backend step left.
\<close>

definition write_version ::
  "env \<Rightarrow> models \<Rightarrow> models list \<Rightarrow> string \<Rightarrow> channel \<Rightarrow> string \<Rightarrow> string \<Rightarrow> string option
     \<Rightarrow> string \<Rightarrow> string \<Rightarrow> string \<Rightarrow> addChannelVersion_result outcome" where
  "write_version e s written org_id channel name type' description location data ivText =
     (case getKubeOwnerName e of
        Inl err \<Rightarrow> (Inl err, written)
      | Inr kubeOwnerName \<Rightarrow>
     (let s2 = last (s # written);
          deployableVersionObj =
            \<lparr>d_id = UUID e 0, d_org_id = org_id, d_uuid = UUID e 1,
             d_channel_id = c_uuid channel, d_channelName = c_name channel, d_name = name,
             d_description = description, d_location = location, d_content = data,
             d_iv = ivText, d_type = type', d_ownerId = me_id e,
             d_kubeOwnerName = kubeOwnerName, d_created = now e\<rparr>;
          s3 = s2\<lparr>DeployableVersion := create deployableVersionObj (DeployableVersion s2)\<rparr>;
          versionObj =
            \<lparr>v_uuid = d_uuid deployableVersionObj, v_name = name, v_description = description,
             v_location = location, v_created = d_created deployableVersionObj\<rparr>;
          s4 = s3\<lparr>Channel :=
                    updateOne (\<lambda>c. c_org_id c = org_id \<and> c_uuid c = c_uuid channel)
                      (\<lambda>c. c\<lparr>c_versions := c_versions c @ [versionObj]\<rparr>) (Channel s3)\<rparr>
      in (Inr \<lparr>ar_success = True, ar_versionUuid = v_uuid versionObj\<rparr>,
          written @ [s3, s4])))"

text \<open>
  \<^verbatim>\<open>addChannelVersion\<close> has no \<^verbatim>\<open>try\<close> block around its body: whatever is thrown
  outside the block that loads the content reaches the caller as it is.
\<close>

definition addChannelVersion ::
  "env \<Rightarrow> models \<Rightarrow> string \<Rightarrow> string \<Rightarrow> string \<Rightarrow> string \<Rightarrow> string option
     \<Rightarrow> (error + string) option \<Rightarrow> string option \<Rightarrow> addChannelVersion_result outcome" where
  "addChannelVersion e s org_id channel_uuid name type' content file description =
     (case findOne (\<lambda>org. o_id org = org_id) (Organization s) of
        None \<Rightarrow>
          (Inl (NotFoundError (req_t e ''Could not find the organization with ID {{org_id}}.''
                  [(''org_id'', org_id)])), [])
      | Some org \<Rightarrow>
     (let orgKey = first (o_orgKeys org) in
      if name = [] then
        (Inl (RazeeValidationError
                (req_t e (''A '' @ dq @ ''name'' @ dq @ '' must be specified'') [])), [])
      else if type' = [] \<or> (type' \<noteq> ''yaml'' \<and> type' \<noteq> ''application/yaml'') then
        (Inl (RazeeValidationError
                (req_t e (''A '' @ dq @ ''type'' @ dq @ '' of application/yaml must be specified'')
                   [])), [])
      else if channel_uuid = [] then
        (Inl (RazeeValidationError
                (req_t e (''A '' @ dq @ ''channel_uuid'' @ dq @ '' must be specified'') [])), [])
      else if file = None \<and> (content = None \<or> content = Some []) then
        (Inl (RazeeValidationError
                (req_t e (''A '' @ dq @ ''file'' @ dq @ '' or '' @ dq @ ''content'' @ dq
                            @ '' must be specified'') [])), [])
      else
     (case findOne (\<lambda>c. c_uuid c = channel_uuid \<and> c_org_id c = org_id) (Channel s) of
        None \<Rightarrow>
          (Inl (NotFoundError
                  (req_t e (''channel uuid '' @ dq @ ''{{channel_uuid}}'' @ dq @ '' not found'')
                     [(''channel_uuid'', channel_uuid)])), [])
      | Some channel \<Rightarrow>
     (case validAuth e org_id MANAGEVERSION CHANNEL ''addChannelVersion''
             (Some (c_uuid channel, c_name channel)) of
        Some err \<Rightarrow> (Inl err, [])
      | None \<Rightarrow>
     (let versions = filter (\<lambda>d. d_org_id d = org_id \<and> d_channel_id d = channel_uuid)
                       (DeployableVersion s);
          versionNameExists = (find (\<lambda>version. d_name version = name) versions \<noteq> None)
      in
      if versionNameExists then
        (Inl (RazeeValidationError (req_t e ''The version name {{name}} already exists''
                [(''name'', name)])), [])
      else
     (let total = count (\<lambda>d. d_org_id d = org_id \<and> d_channel_id d = channel_uuid)
                    (DeployableVersion s)
      in
      if total \<ge> CHANNEL_VERSION_LIMITS_MAX_TOTAL e then
        (Inl (RazeeValidationError
                (req_t e ''Too many channel version are registered under {{channel_uuid}}.''
                   [(''channel_uuid'', channel_uuid)])), [])
      else
     (case load_content e content file of
        Inl err \<Rightarrow> (Inl err, [])
      | Inr content' \<Rightarrow>
     (let iv = randomBytes16 e;
          ivText = toBase64 e iv
      in
      case store_content e s org_id channel name orgKey content' iv of
        (Inl err, written) \<Rightarrow> (Inl err, written)
      | (Inr (location, data), written) \<Rightarrow>
          write_version e s written org_id channel name type' description location data
            ivText))))))))"

section \<open>removeChannel\<close>

text \<open>
  \<^verbatim>\<open>removeChannel\<close> hands every object-store deletion to \<^verbatim>\<open>limit = pLimit(5)\<close> and
  awaits them with \<^verbatim>\<open>Promise.all\<close>. The limiter is the package p-limit: it starts a
  task at once while fewer than its bound are running and queues it otherwise, and each
  task that settles, resolved or rejected, lets the next queued one start. A pool state
  holds the queued tasks, the running ones, the store, and the first rejection, which is
  what \<^verbatim>\<open>Promise.all\<close> rejects with. \<open>run_pool\<close> lists the pool states one step after
  the other: a step starts the next queued task when a slot is free, and otherwise
  settles one running task, the one the schedule picks. A rejection stops neither the
  running nor the queued tasks.
\<close>

record pool =
  pending :: "deployableVersion list"
  active :: "deployableVersion list"
  store :: models
  rejection :: "error option"

definition start_next :: "pool \<Rightarrow> pool" where
  "start_next p = p\<lparr>pending := tl (pending p), active := active p @ [hd (pending p)]\<rparr>"

definition pick :: "nat list \<Rightarrow> pool \<Rightarrow> nat" where
  "pick sched p = (case sched of [] \<Rightarrow> 0 | k # ks \<Rightarrow> k mod length (active p))"

definition settle :: "env \<Rightarrow> nat \<Rightarrow> pool \<Rightarrow> pool" where
  "settle e i p =
     (let rest = take i (active p) @ drop (Suc i) (active p)
      in case deleteDeployableVersionFromS3 e (store p) (active p ! i) of
           Inl err \<Rightarrow>
             p\<lparr>active := rest,
               rejection := (case rejection p of None \<Rightarrow> Some err | Some r \<Rightarrow> Some r)\<rparr>
         | Inr s' \<Rightarrow> p\<lparr>active := rest, store := s'\<rparr>)"

function run_pool :: "env \<Rightarrow> nat \<Rightarrow> nat list \<Rightarrow> pool \<Rightarrow> pool list" where
  "run_pool e n sched p =
     (if pending p \<noteq> [] \<and> length (active p) < n then
        start_next p # run_pool e n sched (start_next p)
      else if active p = [] then []
      else settle e (pick sched p) p # run_pool e n (tl sched) (settle e (pick sched p) p))"
  by pat_completeness auto
termination
proof (relation "measure (\<lambda>(e, n, sched, p). 2 * length (pending p) + length (active p))",
    goal_cases)
  case 1
  show ?case by simp
next
  case (2 e n sched p)
  then show ?case
    by (cases "pending p") (auto simp: start_next_def)
next
  case (3 e n sched p)
  then have "pick sched p < length (active p)"
    by (auto simp: pick_def split: list.splits)
  then have "length (take (pick sched p) (active p) @ drop (Suc (pick sched p)) (active p))
      < length (active p)"
    by auto
  then show ?case
    by (auto simp: settle_def Let_def split: sum.splits)
qed

declare run_pool.simps [simp del]

text \<open>
  The fan-out of \<^verbatim>\<open>removeChannel\<close>: every version to delete is handed to
  \<^verbatim>\<open>pLimit(5)\<close>, in the order of the list, and the pool runs from there.
\<close>

definition limited_deletions :: "env \<Rightarrow> models \<Rightarrow> deployableVersion list \<Rightarrow> pool list" where
  "limited_deletions e s versionsToDeleteFromS3 =
     run_pool e 5 (settle_order e)
       \<lparr>pending = versionsToDeleteFromS3, active = [], store = s, rejection = None\<rparr>"

record removed =
  rr_uuid :: string
  rr_success :: bool

definition removeChannel_try :: "env \<Rightarrow> models \<Rightarrow> string \<Rightarrow> string \<Rightarrow> removed outcome" where
  "removeChannel_try e s org_id uuid =
     (case findOne (\<lambda>c. c_uuid c = uuid \<and> c_org_id c = org_id) (Channel s) of
        None \<Rightarrow>
          (Inl (NotFoundError (req_t e (''channel uuid '' @ dq @ ''{{uuid}}'' @ dq @ '' not found'')
                  [(''uuid'', uuid)])), [])
      | Some channel \<Rightarrow>
     (case validAuth e org_id DELETE CHANNEL ''removeChannel''
             (Some (c_uuid channel, c_name channel)) of
        Some err \<Rightarrow> (Inl err, [])
      | None \<Rightarrow>
     (let channel_uuid = c_uuid channel;
          subCount = count (\<lambda>u. s_org_id u = org_id \<and> s_channel_uuid u = channel_uuid)
                       (Subscription s)
      in
      if subCount > 0 then
        (Inl (RazeeValidationError
                (req_t e (''{{subCount}} subscription(s) depend on this channel. ''
                            @ ''Please update/remove them before removing this channel.'')
                   [(''subCount'', String_of_nat subCount)])),
         [])
      else
     (let versionsToDeleteFromS3 =
            filter (\<lambda>d. d_org_id d = org_id \<and> d_channel_id d = c_uuid channel
                          \<and> d_location d = ''s3'') (DeployableVersion s);
          p0 = \<lparr>pending = versionsToDeleteFromS3, active = [], store = s, rejection = None\<rparr>;
          ps = limited_deletions e s versionsToDeleteFromS3
      in
      case rejection (last (p0 # ps)) of
        Some err \<Rightarrow> (Inl err, map store ps)
      | None \<Rightarrow>
          (let s1 = store (last (p0 # ps));
               s2 = s1\<lparr>DeployableVersion :=
                         deleteMany (\<lambda>d. d_org_id d = org_id \<and> d_channel_id d = c_uuid channel)
                           (DeployableVersion s1)\<rparr>;
               s3 = s2\<lparr>Channel :=
                         deleteOne (\<lambda>c. c_org_id c = org_id \<and> c_uuid c = uuid) (Channel s2)\<rparr>
           in (Inr \<lparr>rr_uuid = uuid, rr_success = True\<rparr>, map store ps @ [s2, s3]))))))"

definition removeChannel :: "env \<Rightarrow> models \<Rightarrow> string \<Rightarrow> string \<Rightarrow> removed outcome" where
  "removeChannel e s org_id uuid =
     (let r = removeChannel_try e s org_id uuid
      in (catch_mutation e ''removeChannel'' (fst r), snd r))"

section \<open>removeChannelVersion\<close>

definition removeChannelVersion_try ::
  "env \<Rightarrow> models \<Rightarrow> string \<Rightarrow> string \<Rightarrow> removed outcome" where
  "removeChannelVersion_try e s org_id uuid =
     (case findOne (\<lambda>d. d_org_id d = org_id \<and> d_uuid d = uuid) (DeployableVersion s) of
        None \<Rightarrow>
          (Inl (NotFoundError (req_t e (''version uuid '' @ dq @ ''{{uuid}}'' @ dq @ '' not found'')
                  [(''uuid'', uuid)])), [])
      | Some deployableVersionObj \<Rightarrow>
     (let subCount = count (\<lambda>u. s_org_id u = org_id \<and> s_version_uuid u = uuid) (Subscription s)
      in
      if subCount > 0 then
        (Inl (RazeeValidationError
                (req_t e (''{{subCount}} subscriptions depend on this channel version. Please ''
                            @ ''update/remove them before removing this channel version.'')
                   [(''subCount'', String_of_nat subCount)])),
         [])
      else
     (let channel_uuid = d_channel_id deployableVersionObj in
      case findOne (\<lambda>c. c_uuid c = channel_uuid \<and> c_org_id c = org_id) (Channel s) of
        None \<Rightarrow>
          (Inl (NotFoundError
                  (req_t e (''channel uuid '' @ dq @ ''{{channel_uuid}}'' @ dq @ '' not found'')
                     [(''channel_uuid'', channel_uuid)])), [])
      | Some channel \<Rightarrow>
     (case validAuth e org_id MANAGEVERSION CHANNEL ''removeChannelVersion''
             (Some (c_uuid channel, c_name channel)) of
        Some err \<Rightarrow> (Inl err, [])
      | None \<Rightarrow>
     (case find (\<lambda>v. v_uuid v = uuid) (c_versions channel) of
        None \<Rightarrow>
          (Inl (NotFoundError
                  (req_t e (''versionObj '' @ dq @ ''{{uuid}}'' @ dq
                              @ '' is not found for {{channel.name}}:{{channel.uuid}}'')
                     [(''uuid'', uuid), (''channel.name'', c_name channel)])), [])
      | Some versionObj \<Rightarrow>
     (case (if v_location versionObj = ''s3''
            then (case deleteDeployableVersionFromS3 e s deployableVersionObj of
                    Inl err \<Rightarrow> Inl err
                  | Inr s1 \<Rightarrow> Inr [s1])
            else Inr []) of
        Inl err \<Rightarrow> (Inl err, [])
      | Inr written \<Rightarrow>
     (let s1 = last (s # written);
          s2 = s1\<lparr>DeployableVersion :=
                    deleteOne (\<lambda>d. d_org_id d = org_id \<and> d_uuid d = uuid) (DeployableVersion s1)\<rparr>;
          versionObjs = c_versions channel;
          vIndex = findIndex (\<lambda>v. v_uuid v = uuid) versionObjs;
          s3 = s2\<lparr>Channel :=
                    updateOne (\<lambda>c. c_org_id c = org_id \<and> c_uuid c = channel_uuid)
                      (\<lambda>c. c\<lparr>c_versions := splice1 vIndex versionObjs\<rparr>) (Channel s2)\<rparr>
      in (Inr \<lparr>rr_uuid = uuid, rr_success = True\<rparr>, written @ [s2, s3]))))))))"

definition removeChannelVersion ::
  "env \<Rightarrow> models \<Rightarrow> string \<Rightarrow> string \<Rightarrow> removed outcome" where
  "removeChannelVersion e s org_id uuid =
     (let r = removeChannelVersion_try e s org_id uuid
      in (catch_mutation e ''removeChannelVersion'' (fst r), snd r))"

section \<open>A sample environment and sample stores\<close>

text \<open>
  The builtins of the sample environment, on the characters the samples use. The path
  name of a URL: the text must begin with a scheme and a host, the path runs from the
  first slash after the host to a question mark or a hash, and a space in it is written
  \<^verbatim>\<open>%20\<close>. \<^verbatim>\<open>decodeURIComponent\<close> puts the character back for an escape, and fails on
  a percent sign that no escape follows.
\<close>

fun drop_prefix :: "string \<Rightarrow> string \<Rightarrow> string option" where
  "drop_prefix [] s = Some s"
| "drop_prefix (p # ps) [] = None"
| "drop_prefix (p # ps) (c # cs) = (if p = c then drop_prefix ps cs else None)"

definition escape_path :: "string \<Rightarrow> string" where
  "escape_path p =
     concat (map (\<lambda>c. if c = CHR '' '' then ''%20'' else [c])
               (takeWhile (\<lambda>c. c \<noteq> CHR ''?'' \<and> c \<noteq> CHR ''#'') p))"

definition sample_pathname :: "string \<Rightarrow> error + string" where
  "sample_pathname url =
     (case (case drop_prefix ''https://'' url of
              Some r \<Rightarrow> Some r
            | None \<Rightarrow> drop_prefix ''http://'' url) of
        None \<Rightarrow> Inl (OtherError ''TypeError: Invalid URL'')
      | Some r \<Rightarrow>
          (let host = takeWhile (\<lambda>c. c \<noteq> CHR ''/'') r;
               p = dropWhile (\<lambda>c. c \<noteq> CHR ''/'') r
           in if host = [] then Inl (OtherError ''TypeError: Invalid URL'')
              else Inr (if p = [] then ''/'' else escape_path p)))"

definition escapes :: "(string \<times> char) list" where
  "escapes = [(''20'', CHR '' ''), (''23'', CHR ''#''), (''25'', CHR ''%''), (''3F'', CHR ''?'')]"

fun sample_decodeURIComponent :: "string \<Rightarrow> error + string" where
  "sample_decodeURIComponent [] = Inr []"
| "sample_decodeURIComponent (c # cs) =
     (if c = CHR ''%'' then
        (case map_of escapes (take 2 cs) of
           None \<Rightarrow> Inl (OtherError ''URIError: URI malformed'')
         | Some x \<Rightarrow>
             (case sample_decodeURIComponent (drop 2 cs) of
                Inl err \<Rightarrow> Inl err
              | Inr r \<Rightarrow> Inr (x # r)))
      else
        (case sample_decodeURIComponent cs of
           Inl err \<Rightarrow> Inl err
         | Inr r \<Rightarrow> Inr (c # r)))"

definition sample_toLowerCase :: "string \<Rightarrow> string" where
  "sample_toLowerCase s =
     map (\<lambda>c. case map_of (zip ''ABCDEFGHIJKLMNOPQRSTUVWXYZ'' ''abcdefghijklmnopqrstuvwxyz'') c of
                 None \<Rightarrow> c
               | Some l \<Rightarrow> l) s"

text \<open>A client that was constructed with no endpoint reaches no object store.\<close>

definition unreachable :: "s3Client \<Rightarrow> error option" where
  "unreachable s3Client =
     (if endpoint s3Client = None \<or> endpoint s3Client = Some []
      then Some (OtherError ''no endpoint'') else None)"

text \<open>
  An environment in which every collaborator answers and nothing fails: the actor may do
  everything, the object store is not configured, a message is its template followed by
  its parameters, the ciphers reverse the text, and the locator of an object is its
  bucket and its key behind the endpoint. The samples below change it field by field.
\<close>

definition env0 :: env where
  "env0 =
     \<lparr>me_id = ''me'', req_id = ''r1'', req_t = (\<lambda>template params.
                template @ concat (map (\<lambda>(k, v). '' ['' @ k @ ''='' @ v @ '']'') params)),
      validAuth = (\<lambda>org_id act ty queryName attrs. None),
      getAllowedChannels = (\<lambda>s org_id act ty. Inr (filter (\<lambda>c. c_org_id c = org_id) (Channel s))),
      filterChannelsToAllowed = (\<lambda>org_id act ty cs. Inr cs),
      applyQueryFieldsToChannels = (\<lambda>cs. None),
      applyQueryFieldsToDeployableVersions = (\<lambda>ds. None),
      getKubeOwnerName = Inr ''owner'',
      conf_s3_endpoint = None, conf_s3_channelBucket = ''bucket'',
      CHANNEL_LIMITS_MAX_TOTAL = 3, CHANNEL_VERSION_LIMITS_MAX_TOTAL = 2,
      CHANNEL_VERSION_YAML_MAX_SIZE_LIMIT_MB = 1,
      UUID = (\<lambda>k. if k = 0 then ''new-id'' else ''new-uuid''),
      randomBytes16 = ''iv'', toBase64 = (\<lambda>x. x), toLowerCase = sample_toLowerCase, now = 7,
      yaml_safeLoadAll = (\<lambda>c. None),
      encryptOrgData = (\<lambda>k c. Inr (rev c)), decryptOrgData = (\<lambda>k c. Inr (rev c)),
      URL_pathname = sample_pathname, decodeURIComponent = sample_decodeURIComponent,
      s3_ensureBucketExists_fails = (\<lambda>s3Client b. unreachable s3Client),
      s3_upload_fails = (\<lambda>s3Client b r. unreachable s3Client),
      s3_url = (\<lambda>s3Client b r.
                  (case endpoint s3Client of None \<Rightarrow> [] | Some ep \<Rightarrow> ep) @ ''/'' @ b @ ''/'' @ r),
      s3_encrypt = (\<lambda>k iv c. rev c), s3_decrypt = (\<lambda>k iv c. Inr (rev c)),
      s3_getObject_fails = (\<lambda>s3Client b p. unreachable s3Client),
      s3_deleteObject_fails = (\<lambda>s3Client b p. unreachable s3Client), settle_order = []\<rparr>"

text \<open>The same environment with the object store configured.\<close>

definition env_s3 :: env where
  "env_s3 = env0\<lparr>conf_s3_endpoint := Some ''https://s3.example''\<rparr>"

text \<open>An actor who may do nothing.\<close>

definition env_denied :: env where
  "env_denied = env0\<lparr>validAuth := (\<lambda>org_id act ty queryName attrs.
                                      Some (RazeeForbiddenError ''not allowed''))\<rparr>"

text \<open>A configured object store that refuses to delete the object \<^verbatim>\<open>two\<close>.\<close>

definition env_s3_down :: env where
  "env_s3_down = env_s3\<lparr>s3_deleteObject_fails :=
                          (\<lambda>s3Client b p. if p = ''two'' then Some (OtherError ''s3 is down'')
                                           else None)\<rparr>"

definition org1 :: organization where
  "org1 = \<lparr>o_id = ''org1'', o_orgKeys = [''key1'']\<rparr>"

text \<open>An inline version \<^verbatim>\<open>v1\<close> and two object-store versions \<^verbatim>\<open>v2\<close>, \<^verbatim>\<open>v3\<close>.\<close>

definition summary1 :: versionObj where
  "summary1 = \<lparr>v_uuid = ''v1'', v_name = ''one'', v_description = None,
               v_location = ''mongo'', v_created = 1\<rparr>"

definition record1 :: deployableVersion where
  "record1 = \<lparr>d_id = ''d1'', d_org_id = ''org1'', d_uuid = ''v1'', d_channel_id = ''ch1'',
              d_channelName = ''payments'', d_name = ''one'', d_description = None,
              d_location = ''mongo'', d_content = ''cba'', d_iv = ''iv'', d_type = ''yaml'',
              d_ownerId = ''me'', d_kubeOwnerName = ''owner'', d_created = 1\<rparr>"

definition summary2 :: versionObj where
  "summary2 = \<lparr>v_uuid = ''v2'', v_name = ''two'', v_description = None,
               v_location = ''s3'', v_created = 2\<rparr>"

definition record2 :: deployableVersion where
  "record2 = \<lparr>d_id = ''d2'', d_org_id = ''org1'', d_uuid = ''v2'', d_channel_id = ''ch1'',
              d_channelName = ''payments'', d_name = ''two'', d_description = None,
              d_location = ''s3'', d_content = ''https://s3.example/bucket/two'',
              d_iv = ''iv'', d_type = ''yaml'',
              d_ownerId = ''me'', d_kubeOwnerName = ''owner'', d_created = 2\<rparr>"

definition summary3 :: versionObj where
  "summary3 = \<lparr>v_uuid = ''v3'', v_name = ''three'', v_description = None,
               v_location = ''s3'', v_created = 3\<rparr>"

definition record3 :: deployableVersion where
  "record3 = \<lparr>d_id = ''d3'', d_org_id = ''org1'', d_uuid = ''v3'', d_channel_id = ''ch1'',
              d_channelName = ''payments'', d_name = ''three'', d_description = None,
              d_location = ''s3'', d_content = ''https://s3.example/bucket/three'',
              d_iv = ''iv'', d_type = ''yaml'',
              d_ownerId = ''me'', d_kubeOwnerName = ''owner'', d_created = 3\<rparr>"

definition channel1 :: "versionObj list \<Rightarrow> channel" where
  "channel1 vs = \<lparr>c_id = ''c1'', c_uuid = ''ch1'', c_org_id = ''org1'', c_name = ''payments'',
                  c_versions = vs, c_tags = [], c_ownerId = ''me'', c_kubeOwnerName = ''owner''\<rparr>"

definition sub1 :: subscription where
  "sub1 = \<lparr>s_uuid = ''s1'', s_org_id = ''org1'', s_channel_uuid = ''ch1'',
           s_version_uuid = ''v1'', s_channelName = ''payments''\<rparr>"

definition sub2 :: subscription where
  "sub2 = \<lparr>s_uuid = ''s2'', s_org_id = ''org1'', s_channel_uuid = ''ch2'',
           s_version_uuid = ''v9'', s_channelName = ''other''\<rparr>"

text \<open>
  \<open>store_of vs ds subs\<close> is a store of one organization and its channel \<^verbatim>\<open>payments\<close>
  with the summaries \<open>vs\<close>, the version records \<open>ds\<close> and the subscriptions \<open>subs\<close>;
  the object store holds the payloads of \<^verbatim>\<open>v2\<close> and \<^verbatim>\<open>v3\<close>.
\<close>

definition store_of ::
  "versionObj list \<Rightarrow> deployableVersion list \<Rightarrow> subscription list \<Rightarrow> models" where
  "store_of vs ds subs =
     \<lparr>Organization = [org1], Channel = [channel1 vs], DeployableVersion = ds,
      Subscription = subs, S3_buckets = [''bucket''],
      S3_objects = [((''bucket'', ''two''), ''owt''), ((''bucket'', ''three''), ''eerht'')]\<rparr>"

text \<open>
  A store with the organization, its channel without versions and an empty object
  store, and the store that \<^verbatim>\<open>addChannelVersion\<close> leaves when, with the object store
  configured, the version \<^verbatim>\<open>my v\<close> is added to it.
\<close>

definition fresh_store :: models where
  "fresh_store =
     \<lparr>Organization = [org1], Channel = [channel1 []], DeployableVersion = [],
      Subscription = [], S3_buckets = [], S3_objects = []\<rparr>"

definition uploaded_store :: models where
  "uploaded_store =
     final fresh_store
       (addChannelVersion env_s3 fresh_store ''org1'' ''ch1'' ''my v'' ''yaml'' (Some ''a: 1'')
          None None)"

section \<open>Summaries and records\<close>


section \<open>Facts about the collection operations\<close>

lemma findOne_updateOne:
  "(\<And>x. P x = Q x) \<Longrightarrow> (\<And>x. Q x \<Longrightarrow> Q (f x)) \<Longrightarrow>
     findOne Q (updateOne P f xs) = map_option f (findOne Q xs)"
  by (induction xs) (auto simp: findOne_def)

lemma length_updateMany: "length (updateMany P f xs) = length xs"
  by (simp add: updateMany_def)

lemma nth_updateMany:
  "i < length xs \<Longrightarrow> updateMany P f xs ! i = (if P (xs ! i) then f (xs ! i) else xs ! i)"
  by (simp add: updateMany_def)

lemmas sample_defs =
  env0_def env_s3_def env_denied_def env_s3_down_def org1_def summary1_def record1_def
  summary2_def record2_def summary3_def record3_def channel1_def sub1_def sub2_def store_of_def
  fresh_store_def

section \<open>editChannel renames the channel in its subscriptions\<close>

lemma editChannel_success:
  assumes "fst (editChannel e s org_id uuid name tags) = Inr r"
  shows "r = \<lparr>er_uuid = uuid, er_success = True, er_name = name, er_tags = tags\<rparr>"
    and "Channel (final s (editChannel e s org_id uuid name tags)) =
           updateOne (\<lambda>c. c_org_id c = org_id \<and> c_uuid c = uuid)
             (\<lambda>c. c\<lparr>c_name := name, c_tags := tags\<rparr>) (Channel s)"
    and "Subscription (final s (editChannel e s org_id uuid name tags)) =
           updateMany (\<lambda>u. s_org_id u = org_id \<and> s_channel_uuid u = uuid)
             (\<lambda>u. u\<lparr>s_channelName := name\<rparr>) (Subscription s)"
    and "findOne (\<lambda>c. c_uuid c = uuid \<and> c_org_id c = org_id) (Channel s) \<noteq> None"
  using assms
  by (auto simp: editChannel_def editChannel_try_def catch_mutation_def final_def Let_def
      split: option.splits if_splits)

text \<open>
  C9. When \<^verbatim>\<open>editChannel\<close> succeeds, the channel found by the uuid in the organization
  carries the new name and the new tags, and the subscriptions are the old ones, in
  their order, where every subscription of the organization whose \<^verbatim>\<open>channel_uuid\<close> is
  the edited channel's has its \<^verbatim>\<open>channelName\<close> set to the new name and every other
  subscription is as it was.
\<close>

theorem editChannel_renames_subscriptions:
  assumes "fst (editChannel e s org_id uuid name tags) = Inr r"
  shows "r = \<lparr>er_uuid = uuid, er_success = True, er_name = name, er_tags = tags\<rparr>
    \<and> (\<exists>c. findOne (\<lambda>c. c_uuid c = uuid \<and> c_org_id c = org_id)
               (Channel (final s (editChannel e s org_id uuid name tags))) = Some c
             \<and> c_name c = name \<and> c_tags c = tags)
    \<and> length (Subscription (final s (editChannel e s org_id uuid name tags)))
           = length (Subscription s)
    \<and> (\<forall>i < length (Subscription s).
           Subscription (final s (editChannel e s org_id uuid name tags)) ! i =
             (if s_org_id (Subscription s ! i) = org_id
                   \<and> s_channel_uuid (Subscription s ! i) = uuid
              then (Subscription s ! i)\<lparr>s_channelName := name\<rparr>
              else Subscription s ! i))"
proof -
  note ok = editChannel_success [OF assms]
  have ch: "\<exists>c. findOne (\<lambda>c. c_uuid c = uuid \<and> c_org_id c = org_id)
               (Channel (final s (editChannel e s org_id uuid name tags))) = Some c
             \<and> c_name c = name \<and> c_tags c = tags"
    using ok(4) unfolding ok(2)
    by (subst findOne_updateOne) auto
  show ?thesis
    using ok(1) ch by (simp add: ok(3) length_updateMany nth_updateMany)
qed

theorem editChannel_renames_subscriptions_witness:
  "fst (editChannel env0 (store_of [summary1] [record1] [sub1, sub2])
          ''org1'' ''ch1'' ''billing'' [''t''])
     = Inr \<lparr>er_uuid = ''ch1'', er_success = True, er_name = ''billing'', er_tags = [''t'']\<rparr>
   \<and> map s_channelName
         (Subscription (final (store_of [summary1] [record1] [sub1, sub2])
            (editChannel env0 (store_of [summary1] [record1] [sub1, sub2])
               ''org1'' ''ch1'' ''billing'' [''t''])))
     = [''billing'', ''other'']"
  using editChannel_renames_subscriptions
    [of env0 "store_of [summary1] [record1] [sub1, sub2]" "''org1''" "''ch1''" "''billing''"
      "[''t'']" "\<lparr>er_uuid = ''ch1'', er_success = True, er_name = ''billing'', er_tags = [''t'']\<rparr>"]
  by (simp add: editChannel_def editChannel_try_def catch_mutation_def findOne_def final_def
      updateMany_def sample_defs)

lemmas eval_defs =
  findOne_def count_def first_def create_def Let_def final_def updateMany_def deleteMany_def
  catch_mutation_def catch_query_def query_error_message_def queryName_of_def channelFilter_def
  load_content_def S3ClientClass_def ensureBucketExists_def encryptAndUploadFile_def
  getAndDecryptFile_def deleteObject_def deleteDeployableVersionFromS3_def bucket_and_path_def
  findIndex_def splice1_def getContents_toString_def store_content_def write_version_def
  start_next_def pick_def settle_def limited_deletions_def String_of_nat.simps
  sample_pathname_def escape_path_def escapes_def sample_toLowerCase_def unreachable_def

section \<open>addChannelVersion: the content sources\<close>

lemma addChannelVersion_accepts:
  assumes org: "findOne (\<lambda>org. o_id org = org_id) (Organization s) = Some org"
    and args: "name \<noteq> []" "type' = ''yaml'' \<or> type' = ''application/yaml''" "channel_uuid \<noteq> []"
    and source: "upload = Some (Inr c) \<or> (upload = None \<and> content = Some c \<and> c \<noteq> [])"
    and ch: "findOne (\<lambda>c. c_uuid c = channel_uuid \<and> c_org_id c = org_id) (Channel s)
               = Some channel"
    and auth: "validAuth e org_id MANAGEVERSION CHANNEL ''addChannelVersion''
                 (Some (c_uuid channel, c_name channel)) = None"
    and fresh: "find (\<lambda>version. d_name version = name)
                  (filter (\<lambda>d. d_org_id d = org_id \<and> d_channel_id d = channel_uuid)
                     (DeployableVersion s)) = None"
    and room: "count (\<lambda>d. d_org_id d = org_id \<and> d_channel_id d = channel_uuid)
                 (DeployableVersion s) < CHANNEL_VERSION_LIMITS_MAX_TOTAL e"
    and small: "length c \<le> CHANNEL_VERSION_YAML_MAX_SIZE_LIMIT_MB e * 1024 * 1024"
    and parses: "yaml_safeLoadAll e c = None"
    and backend: "if conf_s3_endpoint e \<noteq> None \<and> conf_s3_endpoint e \<noteq> Some []
                  then s3_ensureBucketExists_fails e (S3ClientClass e) (conf_s3_channelBucket e)
                         = None
                     \<and> s3_upload_fails e (S3ClientClass e) (conf_s3_channelBucket e)
                          (toLowerCase e org_id @ ''-'' @ c_uuid channel @ ''-'' @ name) = None
                  else encryptOrgData e (first (o_orgKeys org)) (getContents_toString c)
                         = Inr data"
    and owner: "getKubeOwnerName e = Inr k"
  shows "fst (addChannelVersion e s org_id channel_uuid name type' content upload description)
           = Inr \<lparr>ar_success = True, ar_versionUuid = UUID e 1\<rparr>
    \<and> length (DeployableVersion
          (final s (addChannelVersion e s org_id channel_uuid name type' content upload
                      description)))
        = Suc (length (DeployableVersion s))"
proof -
  from source have given: "(upload = None \<and> (content = None \<or> content = Some [])) = False"
    by auto
  from source small parses have loaded: "load_content e content upload = Inr c"
    by (auto simp: load_content_def Let_def)
  from room have quota: "(CHANNEL_VERSION_LIMITS_MAX_TOTAL e
      \<le> count (\<lambda>d. d_org_id d = org_id \<and> d_channel_id d = channel_uuid) (DeployableVersion s))
      = False"
    by simp
  have eq: "addChannelVersion e s org_id channel_uuid name type' content upload description
      = (case store_content e s org_id channel name (first (o_orgKeys org)) c (randomBytes16 e) of
           (Inl err, written) \<Rightarrow> (Inl err, written)
         | (Inr (location, data), written) \<Rightarrow>
             write_version e s written org_id channel name type' description location data
               (toBase64 e (randomBytes16 e)))"
    unfolding addChannelVersion_def org given
    using args ch auth fresh by (auto simp: Let_def quota loaded)
  show ?thesis
    unfolding eq using backend owner
    by (auto simp: store_content_def write_version_def Let_def ensureBucketExists_def
        encryptAndUploadFile_def final_def create_def split: if_splits)
qed

text \<open>
  C5, as the code has it. \<^verbatim>\<open>addChannelVersion\<close> does not ask for exactly one content
  source. When there is an upload the content argument is not looked at, and an upload
  whose text is not empty does what the same text does as content without an upload.
  For an invocation that passed the checks of the organization, the name, the type and
  the channel uuid: when there is no upload and the content is absent or empty, it fails
  with the validation error that asks for a file or a content, and nothing is written;
  in every other case it passes on to the channel lookup, so that with a missing channel
  it fails with the \<^verbatim>\<open>NotFoundError\<close> of the channel; and when its source is an upload,
  empty or not and with or without a content beside it, or a content that is not empty,
  and the later checks, the backend and the owner lookup succeed, it succeeds and leaves
  one version record more.
\<close>

theorem addChannelVersion_content_sources:
  "addChannelVersion e s org_id channel_uuid name type' content (Some u) description
       = addChannelVersion e s org_id channel_uuid name type' None (Some u) description
   \<and> (c \<noteq> [] \<longrightarrow>
        addChannelVersion e s org_id channel_uuid name type' content (Some (Inr c)) description
          = addChannelVersion e s org_id channel_uuid name type' (Some c) None description)
   \<and> (findOne (\<lambda>org. o_id org = org_id) (Organization s) = Some org \<and> name \<noteq> []
        \<and> (type' = ''yaml'' \<or> type' = ''application/yaml'') \<and> channel_uuid \<noteq> []
      \<longrightarrow>
        (upload = None \<and> (content = None \<or> content = Some [])
           \<longrightarrow> addChannelVersion e s org_id channel_uuid name type' content upload description
                 = (Inl (RazeeValidationError
                      (req_t e (''A '' @ dq @ ''file'' @ dq @ '' or '' @ dq @ ''content'' @ dq
                                  @ '' must be specified'') [])), []))
      \<and> (\<not> (upload = None \<and> (content = None \<or> content = Some []))
           \<and> findOne (\<lambda>c. c_uuid c = channel_uuid \<and> c_org_id c = org_id) (Channel s) = None
           \<longrightarrow> addChannelVersion e s org_id channel_uuid name type' content upload description
                 = (Inl (NotFoundError
                      (req_t e (''channel uuid '' @ dq @ ''{{channel_uuid}}'' @ dq
                                  @ '' not found'')
                         [(''channel_uuid'', channel_uuid)])), []))
      \<and> ((upload = Some (Inr c) \<or> (upload = None \<and> content = Some c \<and> c \<noteq> []))
           \<and> findOne (\<lambda>c. c_uuid c = channel_uuid \<and> c_org_id c = org_id) (Channel s)
               = Some channel
           \<and> validAuth e org_id MANAGEVERSION CHANNEL ''addChannelVersion''
                (Some (c_uuid channel, c_name channel)) = None
           \<and> find (\<lambda>version. d_name version = name)
                (filter (\<lambda>d. d_org_id d = org_id \<and> d_channel_id d = channel_uuid)
                   (DeployableVersion s)) = None
           \<and> count (\<lambda>d. d_org_id d = org_id \<and> d_channel_id d = channel_uuid)
                (DeployableVersion s) < CHANNEL_VERSION_LIMITS_MAX_TOTAL e
           \<and> length c \<le> CHANNEL_VERSION_YAML_MAX_SIZE_LIMIT_MB e * 1024 * 1024
           \<and> yaml_safeLoadAll e c = None
           \<and> (if conf_s3_endpoint e \<noteq> None \<and> conf_s3_endpoint e \<noteq> Some []
               then s3_ensureBucketExists_fails e (S3ClientClass e) (conf_s3_channelBucket e)
                      = None
                  \<and> s3_upload_fails e (S3ClientClass e) (conf_s3_channelBucket e)
                       (toLowerCase e org_id @ ''-'' @ c_uuid channel @ ''-'' @ name) = None
               else encryptOrgData e (first (o_orgKeys org)) (getContents_toString c)
                      = Inr data)
           \<and> getKubeOwnerName e = Inr k
           \<longrightarrow> fst (addChannelVersion e s org_id channel_uuid name type' content upload
                       description)
                   = Inr \<lparr>ar_success = True, ar_versionUuid = UUID e 1\<rparr>
               \<and> length (DeployableVersion
                     (final s (addChannelVersion e s org_id channel_uuid name type' content
                                 upload description)))
                   = Suc (length (DeployableVersion s))))"
  (is "?ignored \<and> (?text \<longrightarrow> ?replaces)
       \<and> (?checked \<longrightarrow> (?none \<longrightarrow> ?rejected) \<and> (?some \<longrightarrow> ?passed) \<and> (?valid \<longrightarrow> ?accepted))")
proof -
  have ignored: ?ignored
    by (auto simp: addChannelVersion_def load_content_def Let_def split: option.splits)
  have replaces: "?text \<longrightarrow> ?replaces"
    by (auto simp: addChannelVersion_def load_content_def Let_def split: option.splits)
  have rejected: "?checked \<longrightarrow> ?none \<longrightarrow> ?rejected"
    by (auto simp: addChannelVersion_def Let_def)
  have passed: "?checked \<longrightarrow> ?some \<longrightarrow> ?passed"
  proof (intro impI, elim conjE)
    assume "\<not> (upload = None \<and> (content = None \<or> content = Some []))"
    then have source: "(upload = None \<and> (content = None \<or> content = Some [])) = False"
      by simp
    assume org: "findOne (\<lambda>org. o_id org = org_id) (Organization s) = Some org"
      and "name \<noteq> []" and "type' = ''yaml'' \<or> type' = ''application/yaml''"
      and "channel_uuid \<noteq> []"
      and "findOne (\<lambda>c. c_uuid c = channel_uuid \<and> c_org_id c = org_id) (Channel s) = None"
    then show ?passed
      unfolding addChannelVersion_def org source by (auto simp: Let_def)
  qed
  have accepted: "?checked \<longrightarrow> ?valid \<longrightarrow> ?accepted"
  proof (intro impI)
    assume ?checked and ?valid
    then show ?accepted
      by (elim conjE)
         (rule addChannelVersion_accepts
            [where org = org and c = c and channel = channel and data = data and k = k];
          assumption)
  qed
  from ignored replaces rejected passed accepted show ?thesis
    by blast
qed

theorem addChannelVersion_content_sources_witness:
  "addChannelVersion env0 (store_of [summary1] [record1] []) ''org1'' ''ch1'' ''two'' ''yaml''
       (Some ''a: 1'') (Some (Inr ''b: 2'')) None
     = addChannelVersion env0 (store_of [summary1] [record1] []) ''org1'' ''ch1'' ''two'' ''yaml''
       (Some ''b: 2'') None None
   \<and> addChannelVersion env0 (store_of [summary1] [record1] []) ''org1'' ''ch1'' ''two'' ''yaml''
       (Some []) None None
     = (Inl (RazeeValidationError
              (''A '' @ dq @ ''file'' @ dq @ '' or '' @ dq @ ''content'' @ dq
                 @ '' must be specified'')), [])
   \<and> addChannelVersion env0 (store_of [summary1] [record1] []) ''org1'' ''ch9'' ''two'' ''yaml''
       (Some ''a: 1'') (Some (Inr ''b: 2'')) None
     = (Inl (NotFoundError
               (''channel uuid '' @ dq @ ''{{channel_uuid}}'' @ dq
                  @ '' not found [channel_uuid=ch9]'')), [])
   \<and> fst (addChannelVersion env0 (store_of [summary1] [record1] []) ''org1'' ''ch1'' ''two''
            ''yaml'' (Some ''a: 1'') (Some (Inr ''b: 2'')) None)
     = Inr \<lparr>ar_success = True, ar_versionUuid = ''new-uuid''\<rparr>
   \<and> fst (addChannelVersion env0 (store_of [summary1] [record1] []) ''org1'' ''ch1'' ''two''
            ''yaml'' None (Some (Inr [])) None)
     = Inr \<lparr>ar_success = True, ar_versionUuid = ''new-uuid''\<rparr>
   \<and> length (DeployableVersion
        (final (store_of [summary1] [record1] [])
           (addChannelVersion env0 (store_of [summary1] [record1] []) ''org1'' ''ch1'' ''two''
              ''yaml'' None (Some (Inr [])) None))) = 2"
proof -
  let ?s = "store_of [summary1] [record1] []"
  have org: "findOne (\<lambda>org. o_id org = ''org1'') (Organization ?s) = Some org1"
    by (simp add: findOne_def sample_defs)
  have no_ch: "findOne (\<lambda>c. c_uuid c = ''ch9'' \<and> c_org_id c = ''org1'') (Channel ?s) = None"
    by (simp add: findOne_def sample_defs)
  have ch: "findOne (\<lambda>c. c_uuid c = ''ch1'' \<and> c_org_id c = ''org1'') (Channel ?s)
      = Some (channel1 [summary1])"
    by (simp add: findOne_def sample_defs)
  have rest: "validAuth env0 ''org1'' MANAGEVERSION CHANNEL ''addChannelVersion''
                (Some (c_uuid (channel1 [summary1]), c_name (channel1 [summary1]))) = None"
    "find (\<lambda>version. d_name version = ''two'')
       (filter (\<lambda>d. d_org_id d = ''org1'' \<and> d_channel_id d = ''ch1'') (DeployableVersion ?s))
       = None"
    "count (\<lambda>d. d_org_id d = ''org1'' \<and> d_channel_id d = ''ch1'') (DeployableVersion ?s)
       < CHANNEL_VERSION_LIMITS_MAX_TOTAL env0"
    "yaml_safeLoadAll env0 c = None"
    "conf_s3_endpoint env0 = None"
    "encryptOrgData env0 (first (o_orgKeys org1)) (getContents_toString c)
       = Inr (rev (getContents_toString c))"
    "getKubeOwnerName env0 = Inr ''owner''"
    "CHANNEL_VERSION_YAML_MAX_SIZE_LIMIT_MB env0 = 1"
    "UUID env0 1 = ''new-uuid''"
    "length (DeployableVersion ?s) = 1" for c
    by (simp_all add: count_def sample_defs)
  have msg: "req_t env0 m [] = m"
    "req_t env0 m [(k, v)] = m @ '' ['' @ k @ ''='' @ v @ '']''" for m k v
    by (simp_all add: sample_defs)
  note sources = addChannelVersion_content_sources
    [where e = env0 and s = ?s and org_id = "''org1''" and name = "''two''"
       and type' = "''yaml''" and description = None and org = org1]
  have replaces: "addChannelVersion env0 ?s ''org1'' ''ch1'' ''two'' ''yaml''
       (Some ''a: 1'') (Some (Inr ''b: 2'')) None
     = addChannelVersion env0 ?s ''org1'' ''ch1'' ''two'' ''yaml'' (Some ''b: 2'') None None"
    using sources [where channel_uuid = "''ch1''" and content = "Some ''a: 1''"
        and c = "''b: 2''", THEN conjunct2, THEN conjunct1]
    by simp
  have rejected: "addChannelVersion env0 ?s ''org1'' ''ch1'' ''two'' ''yaml'' (Some []) None None
     = (Inl (RazeeValidationError
              (''A '' @ dq @ ''file'' @ dq @ '' or '' @ dq @ ''content'' @ dq
                 @ '' must be specified'')), [])"
    using org
      sources [where channel_uuid = "''ch1''" and content = "Some []" and upload = None,
        THEN conjunct2, THEN conjunct2]
    by (simp add: msg)
  have passed: "addChannelVersion env0 ?s ''org1'' ''ch9'' ''two'' ''yaml''
       (Some ''a: 1'') (Some (Inr ''b: 2'')) None
     = (Inl (NotFoundError
               (''channel uuid '' @ dq @ ''{{channel_uuid}}'' @ dq
                  @ '' not found [channel_uuid=ch9]'')), [])"
    using org no_ch
      sources [where channel_uuid = "''ch9''" and content = "Some ''a: 1''"
        and upload = "Some (Inr ''b: 2'')", THEN conjunct2, THEN conjunct2]
    by (simp add: msg)
  have both: "fst (addChannelVersion env0 ?s ''org1'' ''ch1'' ''two''
            ''yaml'' (Some ''a: 1'') (Some (Inr ''b: 2'')) None)
     = Inr \<lparr>ar_success = True, ar_versionUuid = ''new-uuid''\<rparr>"
    using org ch rest
      sources [where channel_uuid = "''ch1''" and content = "Some ''a: 1''"
        and upload = "Some (Inr ''b: 2'')" and c = "''b: 2''"
        and channel = "channel1 [summary1]" and data = "rev (getContents_toString ''b: 2'')"
        and k = "''owner''", THEN conjunct2, THEN conjunct2]
    by simp
  have empty: "fst (addChannelVersion env0 ?s ''org1'' ''ch1'' ''two''
            ''yaml'' None (Some (Inr [])) None)
     = Inr \<lparr>ar_success = True, ar_versionUuid = ''new-uuid''\<rparr>
   \<and> length (DeployableVersion
        (final ?s (addChannelVersion env0 ?s ''org1'' ''ch1'' ''two''
              ''yaml'' None (Some (Inr [])) None))) = 2"
    using org ch rest
      sources [where channel_uuid = "''ch1''" and content = None
        and upload = "Some (Inr [])" and c = "[]"
        and channel = "channel1 [summary1]" and data = "rev (getContents_toString [])"
        and k = "''owner''", THEN conjunct2, THEN conjunct2]
    by simp
  from replaces rejected passed both empty show ?thesis
    by (intro conjI) simp_all
qed

text \<open>
  The claim as the spec states it fails: an invocation that supplies both a content and
  an upload is accepted, and so is one whose only source is an empty upload.
\<close>

theorem addChannelVersion_accepts_both_sources:
  "fst (addChannelVersion env0 (store_of [summary1] [record1] []) ''org1'' ''ch1'' ''two''
          ''yaml'' (Some ''a: 1'') (Some (Inr ''b: 2'')) None)
     = Inr \<lparr>ar_success = True, ar_versionUuid = ''new-uuid''\<rparr>
   \<and> fst (addChannelVersion env0 (store_of [summary1] [record1] []) ''org1'' ''ch1'' ''two''
          ''yaml'' None (Some (Inr [])) None)
     = Inr \<lparr>ar_success = True, ar_versionUuid = ''new-uuid''\<rparr>"
  by (simp add: addChannelVersion_def eval_defs sample_defs)
section \<open>addChannelVersion: where the authorization check stands\<close>

text \<open>
  C6, as the code has it. \<^verbatim>\<open>addChannelVersion\<close> asks for authorization after the
  organization lookup, the checks of the name, the type, the channel uuid and the
  content sources, and the channel lookup, and before everything else. Whatever the
  authorization check would answer: a missing organization gives the \<^verbatim>\<open>NotFoundError\<close>
  of the organization, then an empty name the validation error of the name, then a type
  that is not the manifest format the validation error of the type, then an empty
  channel uuid the validation error of the channel uuid, then two missing content
  sources the validation error of the sources, then a missing channel the
  \<^verbatim>\<open>NotFoundError\<close> of the channel. An invocation that passed all these, by an actor
  whom the authorization check refuses, fails with the error of that check and writes
  nothing, whatever the names and the number of the existing versions and whatever the
  content.
\<close>

theorem addChannelVersion_authorization_order:
  "(findOne (\<lambda>org. o_id org = org_id) (Organization s) = None
      \<longrightarrow> addChannelVersion e s org_id channel_uuid name type' content upload description
            = (Inl (NotFoundError
                 (req_t e ''Could not find the organization with ID {{org_id}}.''
                    [(''org_id'', org_id)])), []))
   \<and> (findOne (\<lambda>org. o_id org = org_id) (Organization s) \<noteq> None \<and> name = []
      \<longrightarrow> addChannelVersion e s org_id channel_uuid name type' content upload description
            = (Inl (RazeeValidationError
                 (req_t e (''A '' @ dq @ ''name'' @ dq @ '' must be specified'') [])), []))
   \<and> (findOne (\<lambda>org. o_id org = org_id) (Organization s) \<noteq> None \<and> name \<noteq> []
        \<and> type' \<noteq> ''yaml'' \<and> type' \<noteq> ''application/yaml''
      \<longrightarrow> addChannelVersion e s org_id channel_uuid name type' content upload description
            = (Inl (RazeeValidationError
                 (req_t e (''A '' @ dq @ ''type'' @ dq @ '' of application/yaml must be specified'')
                    [])), []))
   \<and> (findOne (\<lambda>org. o_id org = org_id) (Organization s) \<noteq> None \<and> name \<noteq> []
        \<and> (type' = ''yaml'' \<or> type' = ''application/yaml'') \<and> channel_uuid = []
      \<longrightarrow> addChannelVersion e s org_id channel_uuid name type' content upload description
            = (Inl (RazeeValidationError
                 (req_t e (''A '' @ dq @ ''channel_uuid'' @ dq @ '' must be specified'') [])),
               []))
   \<and> (findOne (\<lambda>org. o_id org = org_id) (Organization s) \<noteq> None \<and> name \<noteq> []
        \<and> (type' = ''yaml'' \<or> type' = ''application/yaml'') \<and> channel_uuid \<noteq> []
        \<and> upload = None \<and> (content = None \<or> content = Some [])
      \<longrightarrow> addChannelVersion e s org_id channel_uuid name type' content upload description
            = (Inl (RazeeValidationError
                 (req_t e (''A '' @ dq @ ''file'' @ dq @ '' or '' @ dq @ ''content'' @ dq
                             @ '' must be specified'') [])), []))
   \<and> (findOne (\<lambda>org. o_id org = org_id) (Organization s) \<noteq> None \<and> name \<noteq> []
        \<and> (type' = ''yaml'' \<or> type' = ''application/yaml'') \<and> channel_uuid \<noteq> []
        \<and> \<not> (upload = None \<and> (content = None \<or> content = Some []))
        \<and> findOne (\<lambda>c. c_uuid c = channel_uuid \<and> c_org_id c = org_id) (Channel s) = None
      \<longrightarrow> addChannelVersion e s org_id channel_uuid name type' content upload description
            = (Inl (NotFoundError
                 (req_t e (''channel uuid '' @ dq @ ''{{channel_uuid}}'' @ dq @ '' not found'')
                    [(''channel_uuid'', channel_uuid)])), []))
   \<and> (findOne (\<lambda>org. o_id org = org_id) (Organization s) \<noteq> None \<and> name \<noteq> []
        \<and> (type' = ''yaml'' \<or> type' = ''application/yaml'') \<and> channel_uuid \<noteq> []
        \<and> \<not> (upload = None \<and> (content = None \<or> content = Some []))
        \<and> findOne (\<lambda>c. c_uuid c = channel_uuid \<and> c_org_id c = org_id) (Channel s) = Some channel
        \<and> validAuth e org_id MANAGEVERSION CHANNEL ''addChannelVersion''
             (Some (c_uuid channel, c_name channel)) = Some err
      \<longrightarrow> addChannelVersion e s org_id channel_uuid name type' content upload description
            = (Inl err, []))"
  (is "(?no_org \<longrightarrow> ?A) \<and> (?no_name \<longrightarrow> ?B) \<and> (?no_type \<longrightarrow> ?C) \<and> (?no_uuid \<longrightarrow> ?D)
       \<and> (?no_source \<longrightarrow> ?E) \<and> (?no_channel \<longrightarrow> ?F) \<and> (?refused \<longrightarrow> ?G)")
proof -
  have a: "?no_org \<longrightarrow> ?A"
    by (simp add: addChannelVersion_def)
  have b: "?no_name \<longrightarrow> ?B"
    by (auto simp: addChannelVersion_def Let_def)
  have c: "?no_type \<longrightarrow> ?C"
    by (auto simp: addChannelVersion_def Let_def)
  have d: "?no_uuid \<longrightarrow> ?D"
    by (auto simp: addChannelVersion_def Let_def)
  have e: "?no_source \<longrightarrow> ?E"
    by (auto simp: addChannelVersion_def Let_def)
  have f: "?no_channel \<longrightarrow> ?F"
  proof (intro impI, elim conjE)
    assume "findOne (\<lambda>org. o_id org = org_id) (Organization s) \<noteq> None"
    then obtain org where org: "findOne (\<lambda>org. o_id org = org_id) (Organization s) = Some org"
      by blast
    assume "\<not> (upload = None \<and> (content = None \<or> content = Some []))"
    then have source: "(upload = None \<and> (content = None \<or> content = Some [])) = False"
      by simp
    assume "name \<noteq> []" and "type' = ''yaml'' \<or> type' = ''application/yaml''"
      and "channel_uuid \<noteq> []"
      and "findOne (\<lambda>c. c_uuid c = channel_uuid \<and> c_org_id c = org_id) (Channel s) = None"
    then show ?F
      unfolding addChannelVersion_def org source by (auto simp: Let_def)
  qed
  have g: "?refused \<longrightarrow> ?G"
  proof (intro impI, elim conjE)
    assume "findOne (\<lambda>org. o_id org = org_id) (Organization s) \<noteq> None"
    then obtain org where org: "findOne (\<lambda>org. o_id org = org_id) (Organization s) = Some org"
      by blast
    assume "\<not> (upload = None \<and> (content = None \<or> content = Some []))"
    then have source: "(upload = None \<and> (content = None \<or> content = Some [])) = False"
      by simp
    assume "name \<noteq> []" and "type' = ''yaml'' \<or> type' = ''application/yaml''"
      and "channel_uuid \<noteq> []"
      and "findOne (\<lambda>c. c_uuid c = channel_uuid \<and> c_org_id c = org_id) (Channel s)
             = Some channel"
      and "validAuth e org_id MANAGEVERSION CHANNEL ''addChannelVersion''
             (Some (c_uuid channel, c_name channel)) = Some err"
    then show ?G
      unfolding addChannelVersion_def org source by (auto simp: Let_def)
  qed
  from a b c d e f g show ?thesis
    by (intro conjI)
qed

theorem addChannelVersion_authorization_order_witness:
  "addChannelVersion env_denied (store_of [summary1] [record1] []) ''org9'' ''ch1'' [] ''json''
       None None None
     = (Inl (NotFoundError
               ''Could not find the organization with ID {{org_id}}. [org_id=org9]''), [])
   \<and> addChannelVersion env_denied (store_of [summary1] [record1] []) ''org1'' ''ch1'' [] ''json''
       None None None
     = (Inl (RazeeValidationError (''A '' @ dq @ ''name'' @ dq @ '' must be specified'')), [])
   \<and> addChannelVersion env_denied (store_of [summary1] [record1] []) ''org1'' ''ch1'' ''two''
       ''json'' None None None
     = (Inl (RazeeValidationError
               (''A '' @ dq @ ''type'' @ dq @ '' of application/yaml must be specified'')), [])
   \<and> addChannelVersion env_denied (store_of [summary1] [record1] []) ''org1'' [] ''two''
       ''yaml'' None None None
     = (Inl (RazeeValidationError (''A '' @ dq @ ''channel_uuid'' @ dq @ '' must be specified'')),
        [])
   \<and> addChannelVersion env_denied (store_of [summary1] [record1] []) ''org1'' ''ch1'' ''two''
       ''yaml'' None None None
     = (Inl (RazeeValidationError
               (''A '' @ dq @ ''file'' @ dq @ '' or '' @ dq @ ''content'' @ dq
                  @ '' must be specified'')), [])
   \<and> addChannelVersion env_denied (store_of [summary1] [record1] []) ''org1'' ''ch9'' ''two''
       ''yaml'' (Some ''a: 1'') None None
     = (Inl (NotFoundError
               (''channel uuid '' @ dq @ ''{{channel_uuid}}'' @ dq
                  @ '' not found [channel_uuid=ch9]'')), [])
   \<and> addChannelVersion env_denied (store_of [summary1] [record1] []) ''org1'' ''ch1'' ''one''
       ''yaml'' (Some ''a: 1'') None None
     = (Inl (RazeeForbiddenError ''not allowed''), [])"
proof -
  let ?s = "store_of [summary1] [record1] []"
  have no_org: "findOne (\<lambda>org. o_id org = ''org9'') (Organization ?s) = None"
    by (simp add: findOne_def sample_defs)
  have org: "findOne (\<lambda>org. o_id org = ''org1'') (Organization ?s) \<noteq> None"
    by (simp add: findOne_def sample_defs)
  have no_ch: "findOne (\<lambda>c. c_uuid c = ''ch9'' \<and> c_org_id c = ''org1'') (Channel ?s) = None"
    by (simp add: findOne_def sample_defs)
  have ch: "findOne (\<lambda>c. c_uuid c = ''ch1'' \<and> c_org_id c = ''org1'') (Channel ?s)
      = Some (channel1 [summary1])"
    by (simp add: findOne_def sample_defs)
  have denied: "validAuth env_denied ''org1'' MANAGEVERSION CHANNEL ''addChannelVersion''
             (Some (c_uuid (channel1 [summary1]), c_name (channel1 [summary1])))
           = Some (RazeeForbiddenError ''not allowed'')"
    by (simp add: sample_defs)
  have msg: "req_t env_denied m [] = m"
    "req_t env_denied m [(k, v)] = m @ '' ['' @ k @ ''='' @ v @ '']''" for m k v
    by (simp_all add: sample_defs)
  have a: "addChannelVersion env_denied ?s ''org9'' ''ch1'' [] ''json'' None None None
      = (Inl (NotFoundError
               ''Could not find the organization with ID {{org_id}}. [org_id=org9]''), [])"
    using no_org
      addChannelVersion_authorization_order
        [where e = env_denied and s = ?s and org_id = "''org9''" and channel_uuid = "''ch1''"
           and name = "[]" and type' = "''json''" and content = None and upload = None
           and description = None, THEN conjunct1]
    by (simp add: msg)
  note rest = addChannelVersion_authorization_order
        [where e = env_denied and s = ?s and org_id = "''org1''" and description = None]
  have b: "addChannelVersion env_denied ?s ''org1'' ''ch1'' [] ''json'' None None None
      = (Inl (RazeeValidationError (''A '' @ dq @ ''name'' @ dq @ '' must be specified'')), [])"
    using org
      rest [where channel_uuid = "''ch1''" and name = "[]" and type' = "''json''"
             and content = None and upload = None, THEN conjunct2, THEN conjunct1]
    by (simp add: msg)
  have c: "addChannelVersion env_denied ?s ''org1'' ''ch1'' ''two'' ''json'' None None None
      = (Inl (RazeeValidationError
               (''A '' @ dq @ ''type'' @ dq @ '' of application/yaml must be specified'')), [])"
    using org
      rest [where channel_uuid = "''ch1''" and name = "''two''" and type' = "''json''"
             and content = None and upload = None, THEN conjunct2, THEN conjunct2,
            THEN conjunct1]
    by (simp add: msg)
  have d: "addChannelVersion env_denied ?s ''org1'' [] ''two'' ''yaml'' None None None
      = (Inl (RazeeValidationError (''A '' @ dq @ ''channel_uuid'' @ dq @ '' must be specified'')),
         [])"
    using org
      rest [where channel_uuid = "[]" and name = "''two''" and type' = "''yaml''"
             and content = None and upload = None, THEN conjunct2, THEN conjunct2,
            THEN conjunct2, THEN conjunct1]
    by (simp add: msg)
  have e: "addChannelVersion env_denied ?s ''org1'' ''ch1'' ''two'' ''yaml'' None None None
      = (Inl (RazeeValidationError
               (''A '' @ dq @ ''file'' @ dq @ '' or '' @ dq @ ''content'' @ dq
                  @ '' must be specified'')), [])"
    using org
      rest [where channel_uuid = "''ch1''" and name = "''two''" and type' = "''yaml''"
             and content = None and upload = None, THEN conjunct2, THEN conjunct2,
            THEN conjunct2, THEN conjunct2, THEN conjunct1]
    by (simp add: msg)
  have f: "addChannelVersion env_denied ?s ''org1'' ''ch9'' ''two'' ''yaml'' (Some ''a: 1'') None
             None
      = (Inl (NotFoundError
               (''channel uuid '' @ dq @ ''{{channel_uuid}}'' @ dq
                  @ '' not found [channel_uuid=ch9]'')), [])"
    using org no_ch
      rest [where channel_uuid = "''ch9''" and name = "''two''" and type' = "''yaml''"
             and content = "Some ''a: 1''" and upload = None, THEN conjunct2, THEN conjunct2,
            THEN conjunct2, THEN conjunct2, THEN conjunct2, THEN conjunct1]
    by (simp add: msg)
  have g: "addChannelVersion env_denied ?s ''org1'' ''ch1'' ''one'' ''yaml'' (Some ''a: 1'') None
             None
      = (Inl (RazeeForbiddenError ''not allowed''), [])"
    using org ch denied
      rest [where channel_uuid = "''ch1''" and name = "''one''" and type' = "''yaml''"
             and content = "Some ''a: 1''" and upload = None
             and channel = "channel1 [summary1]" and err = "RazeeForbiddenError ''not allowed''",
            THEN conjunct2, THEN conjunct2, THEN conjunct2, THEN conjunct2, THEN conjunct2,
            THEN conjunct2]
    by simp
  from a b c d e f g show ?thesis
    by (intro conjI)
qed

text \<open>
  The claim as the spec states it fails: an actor whom the authorization check refuses
  and who gives no name gets the validation error of the name, not the authorization
  error.
\<close>

theorem addChannelVersion_validates_before_authorizing:
  "validAuth env_denied ''org1'' MANAGEVERSION CHANNEL ''addChannelVersion''
       (Some (''ch1'', ''payments'')) = Some (RazeeForbiddenError ''not allowed'')
   \<and> fst (addChannelVersion env_denied (store_of [summary1] [record1] []) ''org1'' ''ch1'' []
            ''yaml'' (Some ''a: 1'') None None)
     = Inl (RazeeValidationError (''A '' @ dq @ ''name'' @ dq @ '' must be specified''))"
  by (simp add: addChannelVersion_def eval_defs sample_defs)
section \<open>addChannelVersion: the quota\<close>

text \<open>
  C8. When the channel already has \<^verbatim>\<open>CHANNEL_VERSION_LIMITS.MAX_TOTAL\<close> version records
  or more, \<^verbatim>\<open>addChannelVersion\<close> fails and performs no write at all, whatever its
  arguments are; when the invocation passed the checks that stand before the quota
  check, the failure is the validation error of the quota. With one record less than the
  maximum, an invocation that passed those checks, whose content loads and parses, whose
  backend write succeeds and whose owner name is found, succeeds and leaves one version
  record more.
\<close>

theorem addChannelVersion_quota:
  "(CHANNEL_VERSION_LIMITS_MAX_TOTAL e
        \<le> count (\<lambda>d. d_org_id d = org_id \<and> d_channel_id d = channel_uuid) (DeployableVersion s)
      \<longrightarrow> (\<exists>err. fst (addChannelVersion e s org_id channel_uuid name type' content upload
                         description) = Inl err)
          \<and> snd (addChannelVersion e s org_id channel_uuid name type' content upload description)
              = [])
   \<and> (findOne (\<lambda>org. o_id org = org_id) (Organization s) = Some org \<and> name \<noteq> []
        \<and> (type' = ''yaml'' \<or> type' = ''application/yaml'') \<and> channel_uuid \<noteq> []
        \<and> \<not> (upload = None \<and> (content = None \<or> content = Some []))
        \<and> findOne (\<lambda>c. c_uuid c = channel_uuid \<and> c_org_id c = org_id) (Channel s) = Some channel
        \<and> validAuth e org_id MANAGEVERSION CHANNEL ''addChannelVersion''
              (Some (c_uuid channel, c_name channel)) = None
        \<and> find (\<lambda>version. d_name version = name)
              (filter (\<lambda>d. d_org_id d = org_id \<and> d_channel_id d = channel_uuid)
                 (DeployableVersion s)) = None
      \<longrightarrow>
        (CHANNEL_VERSION_LIMITS_MAX_TOTAL e
            \<le> count (\<lambda>d. d_org_id d = org_id \<and> d_channel_id d = channel_uuid) (DeployableVersion s)
          \<longrightarrow> addChannelVersion e s org_id channel_uuid name type' content upload description
                = (Inl (RazeeValidationError
                     (req_t e ''Too many channel version are registered under {{channel_uuid}}.''
                        [(''channel_uuid'', channel_uuid)])), []))
        \<and> (Suc (count (\<lambda>d. d_org_id d = org_id \<and> d_channel_id d = channel_uuid)
                    (DeployableVersion s)) = CHANNEL_VERSION_LIMITS_MAX_TOTAL e
             \<and> load_content e content upload = Inr c
             \<and> (if conf_s3_endpoint e \<noteq> None \<and> conf_s3_endpoint e \<noteq> Some []
                 then s3_ensureBucketExists_fails e (S3ClientClass e) (conf_s3_channelBucket e)
                        = None
                    \<and> s3_upload_fails e (S3ClientClass e) (conf_s3_channelBucket e)
                         (toLowerCase e org_id @ ''-'' @ c_uuid channel @ ''-'' @ name) = None
                 else encryptOrgData e (first (o_orgKeys org)) (getContents_toString c)
                        = Inr data)
             \<and> getKubeOwnerName e = Inr k
          \<longrightarrow> fst (addChannelVersion e s org_id channel_uuid name type' content upload description)
                  = Inr \<lparr>ar_success = True, ar_versionUuid = UUID e 1\<rparr>
              \<and> length (DeployableVersion
                    (final s (addChannelVersion e s org_id channel_uuid name type' content upload
                                description)))
                  = Suc (length (DeployableVersion s))))"
proof -
  let ?n = "count (\<lambda>d. d_org_id d = org_id \<and> d_channel_id d = channel_uuid) (DeployableVersion s)"
  let ?r = "addChannelVersion e s org_id channel_uuid name type' content upload description"
  let ?pre = "findOne (\<lambda>org. o_id org = org_id) (Organization s) = Some org \<and> name \<noteq> []
        \<and> (type' = ''yaml'' \<or> type' = ''application/yaml'') \<and> channel_uuid \<noteq> []
        \<and> \<not> (upload = None \<and> (content = None \<or> content = Some []))
        \<and> findOne (\<lambda>c. c_uuid c = channel_uuid \<and> c_org_id c = org_id) (Channel s) = Some channel
        \<and> validAuth e org_id MANAGEVERSION CHANNEL ''addChannelVersion''
              (Some (c_uuid channel, c_name channel)) = None
        \<and> find (\<lambda>version. d_name version = name)
              (filter (\<lambda>d. d_org_id d = org_id \<and> d_channel_id d = channel_uuid)
                 (DeployableVersion s)) = None"
  have full: "(\<exists>err. fst ?r = Inl err) \<and> snd ?r = []"
    if "CHANNEL_VERSION_LIMITS_MAX_TOTAL e \<le> ?n"
    using that by (auto simp: addChannelVersion_def Let_def split: option.splits)
  have quota: "?r = (Inl (RazeeValidationError
                     (req_t e ''Too many channel version are registered under {{channel_uuid}}.''
                        [(''channel_uuid'', channel_uuid)])), [])"
    if "?pre" and "CHANNEL_VERSION_LIMITS_MAX_TOTAL e \<le> ?n"
    using that by (auto simp: addChannelVersion_def Let_def)
  have below: "fst ?r = Inr \<lparr>ar_success = True, ar_versionUuid = UUID e 1\<rparr>
      \<and> length (DeployableVersion (final s ?r)) = Suc (length (DeployableVersion s))"
    if pre: "?pre"
      and ok: "Suc ?n = CHANNEL_VERSION_LIMITS_MAX_TOTAL e
             \<and> load_content e content upload = Inr c
             \<and> (if conf_s3_endpoint e \<noteq> None \<and> conf_s3_endpoint e \<noteq> Some []
                 then s3_ensureBucketExists_fails e (S3ClientClass e) (conf_s3_channelBucket e)
                        = None
                    \<and> s3_upload_fails e (S3ClientClass e) (conf_s3_channelBucket e)
                         (toLowerCase e org_id @ ''-'' @ c_uuid channel @ ''-'' @ name) = None
                 else encryptOrgData e (first (o_orgKeys org)) (getContents_toString c)
                        = Inr data)
             \<and> getKubeOwnerName e = Inr k"
  proof -
    from ok have room: "\<not> CHANNEL_VERSION_LIMITS_MAX_TOTAL e \<le> ?n"
      by arith
    show ?thesis
      using pre ok room
      by (auto simp: addChannelVersion_def store_content_def write_version_def Let_def
          ensureBucketExists_def encryptAndUploadFile_def final_def create_def split: if_splits)
  qed
  show ?thesis
    using full quota below by blast
qed

theorem addChannelVersion_quota_witness:
  "addChannelVersion env0 (store_of [summary1, summary2] [record1, record2] []) ''org1'' ''ch1''
       ''four'' ''yaml'' (Some ''a: 1'') None None
     = (Inl (RazeeValidationError
          ''Too many channel version are registered under {{channel_uuid}}. [channel_uuid=ch1]''),
        [])
   \<and> fst (addChannelVersion env0 (store_of [summary1] [record1] []) ''org1'' ''ch1''
            ''four'' ''yaml'' (Some ''a: 1'') None None)
     = Inr \<lparr>ar_success = True, ar_versionUuid = ''new-uuid''\<rparr>
   \<and> length (DeployableVersion
        (final (store_of [summary1] [record1] [])
           (addChannelVersion env0 (store_of [summary1] [record1] []) ''org1'' ''ch1''
              ''four'' ''yaml'' (Some ''a: 1'') None None))) = 2"
  using
    addChannelVersion_quota
      [where e = env0 and s = "store_of [summary1, summary2] [record1, record2] []"
         and org_id = "''org1''" and channel_uuid = "''ch1''" and name = "''four''"
         and type' = "''yaml''" and content = "Some ''a: 1''" and upload = None
         and description = None and org = org1
         and channel = "channel1 [summary1, summary2]"]
    addChannelVersion_quota
      [where e = env0 and s = "store_of [summary1] [record1] []"
         and org_id = "''org1''" and channel_uuid = "''ch1''" and name = "''four''"
         and type' = "''yaml''" and content = "Some ''a: 1''" and upload = None
         and description = None and org = org1 and channel = "channel1 [summary1]"
         and c = "''a: 1''" and data = "''1 :a''" and k = "''owner''"]
  by (simp add: eval_defs sample_defs)

section \<open>removeChannelVersion: a record without a summary\<close>

text \<open>
  C10. When the version record is found by organization and uuid, its channel is found,
  and the channel's \<^verbatim>\<open>versions\<close> holds no entry with the uuid, then
  \<^verbatim>\<open>removeChannelVersion\<close> fails and performs no write: the records, the channel and the
  object store are as they were. When no subscription refers to the version and the
  actor is authorized, the failure is the \<^verbatim>\<open>NotFoundError\<close> of the missing summary.
\<close>

theorem removeChannelVersion_orphaned_record:
  assumes "findOne (\<lambda>d. d_org_id d = org_id \<and> d_uuid d = uuid) (DeployableVersion s) = Some d"
    and "findOne (\<lambda>c. c_uuid c = d_channel_id d \<and> c_org_id c = org_id) (Channel s) = Some channel"
    and "find (\<lambda>v. v_uuid v = uuid) (c_versions channel) = None"
  shows "(\<exists>err. fst (removeChannelVersion e s org_id uuid) = Inl err)
    \<and> snd (removeChannelVersion e s org_id uuid) = []
    \<and> final s (removeChannelVersion e s org_id uuid) = s
    \<and> (count (\<lambda>u. s_org_id u = org_id \<and> s_version_uuid u = uuid) (Subscription s) = 0
         \<and> validAuth e org_id MANAGEVERSION CHANNEL ''removeChannelVersion''
              (Some (c_uuid channel, c_name channel)) = None
       \<longrightarrow> fst (removeChannelVersion e s org_id uuid)
             = Inl (NotFoundError
                  (req_t e (''versionObj '' @ dq @ ''{{uuid}}'' @ dq
                              @ '' is not found for {{channel.name}}:{{channel.uuid}}'')
                     [(''uuid'', uuid), (''channel.name'', c_name channel)])))"
  using assms
  by (auto simp: removeChannelVersion_def removeChannelVersion_try_def catch_mutation_def
      final_def Let_def split: option.splits)

theorem removeChannelVersion_orphaned_record_witness:
  "findOne (\<lambda>d. d_org_id d = ''org1'' \<and> d_uuid d = ''v1'')
       (DeployableVersion (store_of [] [record1] [])) = Some record1
   \<and> find (\<lambda>v. v_uuid v = ''v1'') (c_versions (channel1 [])) = None
   \<and> removeChannelVersion env0 (store_of [] [record1] []) ''org1'' ''v1''
     = (Inl (NotFoundError
          (''versionObj '' @ dq @ ''{{uuid}}'' @ dq
             @ '' is not found for {{channel.name}}:{{channel.uuid}}''
             @ '' [uuid=v1] [channel.name=payments]'')), [])"
proof -
  have rec: "findOne (\<lambda>d. d_org_id d = ''org1'' \<and> d_uuid d = ''v1'')
       (DeployableVersion (store_of [] [record1] [])) = Some record1"
    by (simp add: findOne_def sample_defs)
  have ch: "findOne (\<lambda>c. c_uuid c = d_channel_id record1 \<and> c_org_id c = ''org1'')
       (Channel (store_of [] [record1] [])) = Some (channel1 [])"
    by (simp add: findOne_def sample_defs)
  have no_summary: "find (\<lambda>v. v_uuid v = ''v1'') (c_versions (channel1 [])) = None"
    by (simp add: sample_defs)
  have free: "count (\<lambda>u. s_org_id u = ''org1'' \<and> s_version_uuid u = ''v1'')
        (Subscription (store_of [] [record1] [])) = 0
      \<and> validAuth env0 ''org1'' MANAGEVERSION CHANNEL ''removeChannelVersion''
           (Some (c_uuid (channel1 []), c_name (channel1 []))) = None"
    by (simp add: count_def sample_defs)
  have msg: "req_t env0 m [(''uuid'', ''v1''), (''channel.name'', c_name (channel1 []))]
      = m @ '' [uuid=v1] [channel.name=payments]''" for m
    by (simp add: sample_defs)
  show ?thesis
    using rec no_summary free
      removeChannelVersion_orphaned_record [OF rec ch no_summary, of env0]
    by (simp add: msg prod_eq_iff)
qed

section \<open>channelVersion: the three lookups\<close>

text \<open>
  C3, as the code has it. \<^verbatim>\<open>channelVersion\<close> looks up the channel by its name or its
  uuid, the summary in the channel's list by uuid or name, and the version record by
  organization, channel and the summary's uuid, in that order, and each lookup that
  finds nothing makes the query fail, the record lookup also when the summary was there.
  But every failure of the query, these three included, reaches the caller as the same
  \<^verbatim>\<open>RazeeQueryError\<close>, which names the query and the request and not what was missing.
\<close>

theorem channelVersion_failures_look_alike:
  "(\<forall>err. Query_channelVersion e s org_id channelUuid versionUuid channelName versionName qn = Inl err
       \<longrightarrow> err = RazeeQueryError (query_error_message e (queryName_of qn)))
   \<and> (findOne (channelFilter org_id channelUuid channelName) (Channel s) = None
       \<longrightarrow> Query_channelVersion e s org_id channelUuid versionUuid channelName versionName qn
             = Inl (RazeeQueryError (query_error_message e (queryName_of qn))))
   \<and> (findOne (channelFilter org_id channelUuid channelName) (Channel s) = Some channel
        \<and> find (\<lambda>v. Some (v_uuid v) = versionUuid \<or> Some (v_name v) = versionName)
             (c_versions channel) = None
       \<longrightarrow> Query_channelVersion e s org_id channelUuid versionUuid channelName versionName qn
             = Inl (RazeeQueryError (query_error_message e (queryName_of qn))))
   \<and> (findOne (channelFilter org_id channelUuid channelName) (Channel s) = Some channel
        \<and> find (\<lambda>v. Some (v_uuid v) = versionUuid \<or> Some (v_name v) = versionName)
             (c_versions channel) = Some versionObj
        \<and> findOne (\<lambda>d. d_org_id d = org_id \<and> d_channel_id d = c_uuid channel
                          \<and> d_uuid d = v_uuid versionObj) (DeployableVersion s) = None
       \<longrightarrow> Query_channelVersion e s org_id channelUuid versionUuid channelName versionName qn
             = Inl (RazeeQueryError (query_error_message e (queryName_of qn))))"
proof -
  have generic: "Query_channelVersion e s org_id channelUuid versionUuid channelName versionName qn
      = Inl (RazeeQueryError (query_error_message e (queryName_of qn)))"
    if "channelVersion_try e s org_id channelUuid versionUuid channelName versionName
          (queryName_of qn) = Inl err" for err
    using that by (simp add: Query_channelVersion_def catch_query_def)
  have all: "err = RazeeQueryError (query_error_message e (queryName_of qn))"
    if "Query_channelVersion e s org_id channelUuid versionUuid channelName versionName qn = Inl err"
    for err
    using that by (auto simp: Query_channelVersion_def catch_query_def Let_def split: sum.splits)
  have fails1: "\<exists>err. channelVersion_try e s org_id channelUuid versionUuid channelName versionName q
                  = Inl err"
    if "findOne (channelFilter org_id channelUuid channelName) (Channel s) = None"
    for q
    using that
    by (cases "findOne (\<lambda>org. o_id org = org_id) (Organization s)")
       (simp_all add: channelVersion_try_def Let_def)
  have fails2: "\<exists>err. channelVersion_try e s org_id channelUuid versionUuid channelName versionName q
                  = Inl err"
    if "findOne (channelFilter org_id channelUuid channelName) (Channel s) = Some channel"
      and "find (\<lambda>v. Some (v_uuid v) = versionUuid \<or> Some (v_name v) = versionName)
             (c_versions channel) = None"
    for q
    using that
    by (cases "findOne (\<lambda>org. o_id org = org_id) (Organization s)";
        cases "validAuth e org_id READ CHANNEL q (Some (c_uuid channel, c_name channel))")
       (simp_all add: channelVersion_try_def Let_def)
  have fails3: "\<exists>err. channelVersion_try e s org_id channelUuid versionUuid channelName versionName q
                  = Inl err"
    if "findOne (channelFilter org_id channelUuid channelName) (Channel s) = Some channel"
      and "find (\<lambda>v. Some (v_uuid v) = versionUuid \<or> Some (v_name v) = versionName)
             (c_versions channel) = Some versionObj"
      and "findOne (\<lambda>d. d_org_id d = org_id \<and> d_channel_id d = c_uuid channel
                          \<and> d_uuid d = v_uuid versionObj) (DeployableVersion s) = None"
    for q
    using that
    by (cases "findOne (\<lambda>org. o_id org = org_id) (Organization s)";
        cases "validAuth e org_id READ CHANNEL q (Some (c_uuid channel, c_name channel))")
       (simp_all add: channelVersion_try_def Let_def)
  show ?thesis
    using all generic fails1 fails2 fails3 by blast
qed

theorem channelVersion_failures_look_alike_witness:
  "findOne (channelFilter ''org1'' (Some ''ch1'') None) (Channel (store_of [summary1] [] []))
     = Some (channel1 [summary1])
   \<and> find (\<lambda>v. Some (v_uuid v) = Some ''v1'' \<or> Some (v_name v) = None)
       (c_versions (channel1 [summary1])) = Some summary1
   \<and> findOne (\<lambda>d. d_org_id d = ''org1'' \<and> d_channel_id d = c_uuid (channel1 [summary1])
                    \<and> d_uuid d = v_uuid summary1) (DeployableVersion (store_of [summary1] [] []))
     = None
   \<and> Query_channelVersion env0 (store_of [summary1] [] []) ''org1'' (Some ''ch1'') (Some ''v1'')
       None None None
     = Inl (RazeeQueryError (query_error_message env0 ''channelVersion''))"
proof -
  have ch: "findOne (channelFilter ''org1'' (Some ''ch1'') None)
              (Channel (store_of [summary1] [] [])) = Some (channel1 [summary1])"
    by (simp add: findOne_def channelFilter_def sample_defs)
  have summary: "find (\<lambda>v. Some (v_uuid v) = Some ''v1'' \<or> Some (v_name v) = None)
       (c_versions (channel1 [summary1])) = Some summary1"
    by (simp add: sample_defs)
  have no_record: "findOne (\<lambda>d. d_org_id d = ''org1'' \<and> d_channel_id d = c_uuid (channel1 [summary1])
                    \<and> d_uuid d = v_uuid summary1) (DeployableVersion (store_of [summary1] [] []))
     = None"
    by (simp add: findOne_def sample_defs)
  have "Query_channelVersion env0 (store_of [summary1] [] []) ''org1'' (Some ''ch1'') (Some ''v1'')
       None None None
     = Inl (RazeeQueryError (query_error_message env0 (queryName_of None)))"
    using ch summary no_record
      channelVersion_failures_look_alike
        [where e = env0 and s = "store_of [summary1] [] []" and org_id = "''org1''"
           and channelUuid = "Some ''ch1''" and versionUuid = "Some ''v1''"
           and channelName = None and versionName = None and qn = None
           and channel = "channel1 [summary1]" and versionObj = summary1]
    by blast
  then show ?thesis
    using ch summary no_record by (simp add: queryName_of_def)
qed

text \<open>
  The claim as the spec states it fails: with the channel missing, with the summary
  missing and with the record missing, the caller gets one and the same error, and it
  is not a \<^verbatim>\<open>NotFoundError\<close>.
\<close>

theorem channelVersion_missing_layer_not_reported:
  "Query_channelVersion env0 (store_of [summary1] [record1] []) ''org1'' (Some ''nope'')
       (Some ''v1'') None None None
     = Inl (RazeeQueryError (''Query {{queryName}} error. MessageID: {{req_id}}.''
                               @ '' [queryName=channelVersion] [req_id=r1]''))
   \<and> Query_channelVersion env0 (store_of [summary1] [record1] []) ''org1'' (Some ''ch1'')
       (Some ''v9'') None None None
     = Inl (RazeeQueryError (''Query {{queryName}} error. MessageID: {{req_id}}.''
                               @ '' [queryName=channelVersion] [req_id=r1]''))
   \<and> Query_channelVersion env0 (store_of [summary1] [] []) ''org1'' (Some ''ch1'')
       (Some ''v1'') None None None
     = Inl (RazeeQueryError (''Query {{queryName}} error. MessageID: {{req_id}}.''
                               @ '' [queryName=channelVersion] [req_id=r1]''))"
  by (simp add: Query_channelVersion_def channelVersion_try_def eval_defs sample_defs)

section \<open>Which errors reach the caller\<close>

text \<open>
  C2, as the code has it. In the mutations \<^verbatim>\<open>addChannel\<close>, \<^verbatim>\<open>editChannel\<close>,
  \<^verbatim>\<open>removeChannel\<close> and \<^verbatim>\<open>removeChannelVersion\<close> an error thrown inside the
  \<^verbatim>\<open>try\<close> block reaches the caller as it is when it is a \<^verbatim>\<open>BasicRazeeError\<close>, and is
  replaced by the \<^verbatim>\<open>RazeeQueryError\<close> of the mutation otherwise. In the queries
  \<^verbatim>\<open>channel\<close>, \<^verbatim>\<open>channelByName\<close>, \<^verbatim>\<open>channelsByTags\<close> and \<^verbatim>\<open>channelVersion\<close> every
  error thrown inside the \<^verbatim>\<open>try\<close> block, typed or not, is replaced by the
  \<^verbatim>\<open>RazeeQueryError\<close> of the query, and every failure of \<^verbatim>\<open>channels\<close> is one
  \<^verbatim>\<open>NotFoundError\<close> that names the query and the request.
\<close>

theorem errors_reaching_the_caller:
  "(\<forall>err. validAuth e org_id CREATE CHANNEL ''addChannel'' None = None
          \<and> fst (addChannel_try e s org_id name tags) = Inl err
      \<longrightarrow> fst (addChannel e s org_id name tags)
            = Inl (if instanceof_BasicRazeeError err then err
                   else RazeeQueryError (query_error_message e ''addChannel'')))
   \<and> (\<forall>err. fst (editChannel_try e s org_id uuid name tags) = Inl err
      \<longrightarrow> fst (editChannel e s org_id uuid name tags)
            = Inl (if instanceof_BasicRazeeError err then err
                   else RazeeQueryError (query_error_message e ''editChannel'')))
   \<and> (\<forall>err. fst (removeChannel_try e s org_id uuid) = Inl err
      \<longrightarrow> fst (removeChannel e s org_id uuid)
            = Inl (if instanceof_BasicRazeeError err then err
                   else RazeeQueryError (query_error_message e ''removeChannel'')))
   \<and> (\<forall>err. fst (removeChannelVersion_try e s org_id uuid) = Inl err
      \<longrightarrow> fst (removeChannelVersion e s org_id uuid)
            = Inl (if instanceof_BasicRazeeError err then err
                   else RazeeQueryError (query_error_message e ''removeChannelVersion'')))
   \<and> (\<forall>err. Query_channel_try e s org_id uuid = Inl err
      \<longrightarrow> Query_channel e s org_id uuid
            = Inl (RazeeQueryError (query_error_message e ''channel'')))
   \<and> (\<forall>err. Query_channelByName_try e s org_id name = Inl err
      \<longrightarrow> Query_channelByName e s org_id name
            = Inl (RazeeQueryError (query_error_message e ''channelByName'')))
   \<and> (\<forall>err. Query_channelsByTags_try e s org_id tags = Inl err
      \<longrightarrow> Query_channelsByTags e s org_id tags
            = Inl (RazeeQueryError (query_error_message e ''channelsByTags'')))
   \<and> (\<forall>err. channelVersion_try e s org_id channelUuid versionUuid channelName versionName
              (queryName_of qn) = Inl err
      \<longrightarrow> Query_channelVersion e s org_id channelUuid versionUuid channelName versionName qn
            = Inl (RazeeQueryError (query_error_message e (queryName_of qn))))
   \<and> (\<forall>err. Query_channels e s org_id = Inl err
      \<longrightarrow> err = NotFoundError
                  (req_t e ''Query {{queryName}} find error. MessageID: {{req_id}}.''
                     [(''queryName'', ''channels''), (''req_id'', req_id e)]))"
proof -
  have mutations:
    "fst (addChannel e s org_id name tags)
       = catch_mutation e ''addChannel'' (fst (addChannel_try e s org_id name tags))"
    if "validAuth e org_id CREATE CHANNEL ''addChannel'' None = None"
    using that by (simp add: addChannel_def Let_def)
  have catch: "catch_mutation e q (Inl err :: error + 'a)
       = Inl (if instanceof_BasicRazeeError err then err
              else RazeeQueryError (query_error_message e q))" for q err
    by (simp add: catch_mutation_def)
  have channels: "err = NotFoundError
                  (req_t e ''Query {{queryName}} find error. MessageID: {{req_id}}.''
                     [(''queryName'', ''channels''), (''req_id'', req_id e)])"
    if "Query_channels e s org_id = Inl err" for err
    using that by (auto simp: Query_channels_def Let_def split: sum.splits option.splits)
  show ?thesis
    using channels
    by (simp add: mutations catch editChannel_def removeChannel_def removeChannelVersion_def
        Query_channel_def Query_channelByName_def Query_channelsByTags_def
        Query_channelVersion_def catch_query_def Let_def)
qed

theorem errors_reaching_the_caller_witness:
  "fst (removeChannel env0 (store_of [summary1] [record1] []) ''org1'' ''nope'')
     = Inl (NotFoundError (''channel uuid '' @ dq @ ''{{uuid}}'' @ dq @ '' not found [uuid=nope]''))
   \<and> fst (removeChannelVersion env_s3_down (store_of [summary2] [record2] []) ''org1'' ''v2'')
     = Inl (RazeeQueryError (query_error_message env_s3_down ''removeChannelVersion''))
   \<and> Query_channel env0 (store_of [summary1] [record1] []) ''org1'' ''nope''
     = Inl (RazeeQueryError (query_error_message env0 ''channel''))"
proof -
  have typed: "fst (removeChannel_try env0 (store_of [summary1] [record1] []) ''org1'' ''nope'')
     = Inl (NotFoundError (''channel uuid '' @ dq @ ''{{uuid}}'' @ dq @ '' not found [uuid=nope]''))"
    by (simp add: removeChannel_try_def eval_defs sample_defs)
  have untyped: "fst (removeChannelVersion_try env_s3_down (store_of [summary2] [record2] [])
                        ''org1'' ''v2'') = Inl (OtherError ''s3 is down'')"
    by (simp add: removeChannelVersion_try_def eval_defs sample_defs)
  have query: "Query_channel_try env0 (store_of [summary1] [record1] []) ''org1'' ''nope''
     = Inl (NotFoundError ''Could not find the channel with uuid {{uuid}}. [uuid=nope]'')"
    by (simp add: Query_channel_try_def eval_defs sample_defs)
  have a: "fst (removeChannel env0 (store_of [summary1] [record1] []) ''org1'' ''nope'')
      = Inl (if instanceof_BasicRazeeError
                  (NotFoundError (''channel uuid '' @ dq @ ''{{uuid}}'' @ dq
                                    @ '' not found [uuid=nope]''))
             then NotFoundError (''channel uuid '' @ dq @ ''{{uuid}}'' @ dq
                                   @ '' not found [uuid=nope]'')
             else RazeeQueryError (query_error_message env0 ''removeChannel''))"
    using typed
      errors_reaching_the_caller
        [where e = env0 and s = "store_of [summary1] [record1] []" and org_id = "''org1''"
           and uuid = "''nope''"]
    by blast
  have b: "Query_channel env0 (store_of [summary1] [record1] []) ''org1'' ''nope''
      = Inl (RazeeQueryError (query_error_message env0 ''channel''))"
    using query
      errors_reaching_the_caller
        [where e = env0 and s = "store_of [summary1] [record1] []" and org_id = "''org1''"
           and uuid = "''nope''"]
    by blast
  have c: "fst (removeChannelVersion env_s3_down (store_of [summary2] [record2] []) ''org1'' ''v2'')
      = Inl (if instanceof_BasicRazeeError (OtherError ''s3 is down'')
             then OtherError ''s3 is down''
             else RazeeQueryError (query_error_message env_s3_down ''removeChannelVersion''))"
    using untyped
      errors_reaching_the_caller
        [where e = env_s3_down and s = "store_of [summary2] [record2] []"
           and org_id = "''org1''" and uuid = "''v2''"]
    by blast
  show ?thesis
    using a b c by simp
qed

text \<open>
  The claim as the spec states it fails for the queries: the \<^verbatim>\<open>NotFoundError\<close> that
  \<^verbatim>\<open>channel\<close> throws for a missing channel does not reach the caller.
\<close>

theorem query_replaces_typed_error:
  "Query_channel_try env0 (store_of [summary1] [record1] []) ''org1'' ''nope''
     = Inl (NotFoundError ''Could not find the channel with uuid {{uuid}}. [uuid=nope]'')
   \<and> Query_channel env0 (store_of [summary1] [record1] []) ''org1'' ''nope''
     = Inl (RazeeQueryError (''Query {{queryName}} error. MessageID: {{req_id}}.''
                               @ '' [queryName=channel] [req_id=r1]''))"
  by (simp add: Query_channel_def Query_channel_try_def eval_defs sample_defs)

section \<open>Facts about the version operations\<close>














lemma deleteDeployableVersionFromS3_keeps:
  "deleteDeployableVersionFromS3 e s d = Inr s1 \<Longrightarrow>
     Channel s1 = Channel s \<and> DeployableVersion s1 = DeployableVersion s
     \<and> Organization s1 = Organization s \<and> Subscription s1 = Subscription s"
  by (auto simp: deleteDeployableVersionFromS3_def deleteObject_def
      split: sum.splits option.splits prod.splits)



section \<open>The order of the two writes\<close>




section \<open>The tag of the summary decides the backend\<close>






section \<open>The pool of deletions\<close>

lemma pick_less: "active p \<noteq> [] \<Longrightarrow> pick sched p < length (active p)"
  by (auto simp: pick_def split: list.splits)

lemma run_pool_start:
  "pending p \<noteq> [] \<Longrightarrow> length (active p) < n \<Longrightarrow>
     run_pool e n sched p = start_next p # run_pool e n sched (start_next p)"
  by (subst run_pool.simps) simp

lemma run_pool_stop:
  "\<not> (pending p \<noteq> [] \<and> length (active p) < n) \<Longrightarrow> active p = [] \<Longrightarrow>
     run_pool e n sched p = []"
  by (subst run_pool.simps) simp

lemma run_pool_settle:
  "\<not> (pending p \<noteq> [] \<and> length (active p) < n) \<Longrightarrow> active p \<noteq> [] \<Longrightarrow>
     run_pool e n sched p
       = settle e (pick sched p) p # run_pool e n (tl sched) (settle e (pick sched p) p)"
  by (subst run_pool.simps) auto

lemma run_pool_invariant:
  assumes "I p"
    and "\<And>p. I p \<Longrightarrow> pending p \<noteq> [] \<Longrightarrow> length (active p) < n \<Longrightarrow> I (start_next p)"
    and "\<And>p i. I p \<Longrightarrow> i < length (active p) \<Longrightarrow> I (settle e i p)"
  shows "\<forall>q \<in> set (run_pool e n sched p). I q"
  using assms
proof (induction e n sched p rule: run_pool.induct)
  case (1 e n sched p)
  show ?case
  proof (cases "pending p \<noteq> [] \<and> length (active p) < n")
    case True
    then have next_ok: "I (start_next p)"
      using "1.prems" by blast
    from "1.IH"(1) [OF True next_ok "1.prems"(2,3)] next_ok True show ?thesis
      by (simp add: run_pool_start)
  next
    case False
    show ?thesis
    proof (cases "active p = []")
      case True
      with False show ?thesis
        by (simp add: run_pool_stop)
    next
      case busy: False
      then have settled: "I (settle e (pick sched p) p)"
        using "1.prems" pick_less by blast
      from "1.IH"(2) [OF False busy settled "1.prems"(2,3)] settled False busy show ?thesis
        by (simp add: run_pool_settle)
    qed
  qed
qed

lemma run_pool_last:
  assumes "I p" and "\<forall>q \<in> set (run_pool e n sched p). I q"
  shows "I (last (p # run_pool e n sched p))"
  using assms by (cases "run_pool e n sched p" rule: rev_cases) auto

lemma settle_store:
  "Channel (store (settle e i p)) = Channel (store p)
   \<and> DeployableVersion (store (settle e i p)) = DeployableVersion (store p)"
proof (cases "deleteDeployableVersionFromS3 e (store p) (active p ! i)")
  case (Inl err)
  then show ?thesis
    by (simp add: settle_def Let_def)
next
  case (Inr s1)
  with deleteDeployableVersionFromS3_keeps [OF Inr] show ?thesis
    by (simp add: settle_def Let_def)
qed

lemma length_active_settle:
  "i < length (active p) \<Longrightarrow> length (active (settle e i p)) < length (active p)"
  by (cases "deleteDeployableVersionFromS3 e (store p) (active p ! i)")
     (auto simp: settle_def Let_def)

lemma run_pool_bound:
  assumes "length (active p) \<le> n"
  shows "\<forall>q \<in> set (run_pool e n sched p). length (active q) \<le> n"
proof (rule run_pool_invariant [where I = "\<lambda>q. length (active q) \<le> n"])
  show "length (active p) \<le> n"
    by (rule assms)
next
  fix p :: pool
  assume "length (active p) < n"
  then show "length (active (start_next p)) \<le> n"
    by (simp add: start_next_def)
next
  fix p :: pool and i
  assume "length (active p) \<le> n" and "i < length (active p)"
  with length_active_settle [of i p e] show "length (active (settle e i p)) \<le> n"
    by simp
qed

lemma run_pool_keeps:
  assumes "Channel (store p) = Channel s \<and> DeployableVersion (store p) = DeployableVersion s"
  shows "\<forall>q \<in> set (run_pool e n sched p).
           Channel (store q) = Channel s \<and> DeployableVersion (store q) = DeployableVersion s"
proof (rule run_pool_invariant
    [where I = "\<lambda>q. Channel (store q) = Channel s \<and> DeployableVersion (store q) = DeployableVersion s"])
  show "Channel (store p) = Channel s \<and> DeployableVersion (store p) = DeployableVersion s"
    by (rule assms)
next
  fix p :: pool
  assume "Channel (store p) = Channel s \<and> DeployableVersion (store p) = DeployableVersion s"
  then show "Channel (store (start_next p)) = Channel s
      \<and> DeployableVersion (store (start_next p)) = DeployableVersion s"
    by (simp add: start_next_def)
next
  fix p :: pool and i
  assume "Channel (store p) = Channel s \<and> DeployableVersion (store p) = DeployableVersion s"
  with settle_store [of e i p] show "Channel (store (settle e i p)) = Channel s
      \<and> DeployableVersion (store (settle e i p)) = DeployableVersion s"
    by simp
qed

lemma deletion_failure_any_store:
  "(deleteDeployableVersionFromS3 e s d = Inl err) = (deleteDeployableVersionFromS3 e s' d = Inl err)"
  by (auto simp: deleteDeployableVersionFromS3_def deleteObject_def
      split: sum.splits option.splits prod.splits)

lemma set_without_nth:
  "i < length xs \<Longrightarrow> set xs = insert (xs ! i) (set (take i xs @ drop (Suc i) xs))"
proof -
  assume "i < length xs"
  then have "xs = take i xs @ xs ! i # drop (Suc i) xs"
    by (rule id_take_nth_drop)
  then have "set xs = set (take i xs @ xs ! i # drop (Suc i) xs)"
    by simp
  then show ?thesis
    by simp
qed

lemma settle_rejection:
  "rejection (settle e i p) = None \<longleftrightarrow>
     rejection p = None \<and> (\<forall>err. deleteDeployableVersionFromS3 e s (active p ! i) \<noteq> Inl err)"
proof (cases "deleteDeployableVersionFromS3 e (store p) (active p ! i)")
  case (Inl err)
  then have "deleteDeployableVersionFromS3 e s (active p ! i) = Inl err"
    using deletion_failure_any_store by blast
  with Inl show ?thesis
    by (auto simp: settle_def Let_def split: option.splits)
next
  case (Inr s1)
  then have "\<forall>err. deleteDeployableVersionFromS3 e s (active p ! i) \<noteq> Inl err"
    using deletion_failure_any_store [of e s "active p ! i" _ "store p"] by auto
  with Inr show ?thesis
    by (simp add: settle_def Let_def)
qed

lemma settle_tasks:
  "pending (settle e i p) = pending p
   \<and> active (settle e i p) = take i (active p) @ drop (Suc i) (active p)"
  by (cases "deleteDeployableVersionFromS3 e (store p) (active p ! i)")
     (simp_all add: settle_def Let_def)

lemma run_pool_rejection:
  assumes "0 < n"
  shows "rejection (last (p # run_pool e n sched p)) = None \<longleftrightarrow>
     rejection p = None
     \<and> (\<forall>d \<in> set (pending p) \<union> set (active p).
          \<forall>err. deleteDeployableVersionFromS3 e s d \<noteq> Inl err)"
  using assms
proof (induction e n sched p rule: run_pool.induct)
  case (1 e n sched p)
  show ?case
  proof (cases "pending p \<noteq> [] \<and> length (active p) < n")
    case True
    then have tasks: "set (pending (start_next p)) \<union> set (active (start_next p))
        = set (pending p) \<union> set (active p)"
      by (cases "pending p") (auto simp: start_next_def)
    have rej: "rejection (start_next p) = rejection p"
      by (simp add: start_next_def)
    from "1.IH"(1) [OF True "1.prems"] show ?thesis
      unfolding run_pool_start [OF conjunct1 [OF True] conjunct2 [OF True]] tasks rej
      by simp
  next
    case False
    show ?thesis
    proof (cases "active p = []")
      case True
      with False "1.prems" have "pending p = []"
        by auto
      with True False show ?thesis
        by (simp add: run_pool_stop)
    next
      case busy: False
      let ?i = "pick sched p"
      have i: "?i < length (active p)"
        using busy by (rule pick_less)
      have tasks: "set (pending p) \<union> set (active p)
          = insert (active p ! ?i)
              (set (pending (settle e ?i p)) \<union> set (active (settle e ?i p)))"
        using set_without_nth [OF i] by (simp add: settle_tasks)
      from "1.IH"(2) [OF False busy "1.prems"] show ?thesis
        unfolding run_pool_settle [OF False busy] tasks settle_rejection [of e ?i p s]
        by auto
    qed
  qed
qed

lemma removeChannel_try_cascade:
  assumes "findOne (\<lambda>c. c_uuid c = uuid \<and> c_org_id c = org_id) (Channel s) = Some channel"
    and "validAuth e org_id DELETE CHANNEL ''removeChannel''
           (Some (c_uuid channel, c_name channel)) = None"
    and "count (\<lambda>u. s_org_id u = org_id \<and> s_channel_uuid u = c_uuid channel) (Subscription s) = 0"
    and "tasks = filter (\<lambda>d. d_org_id d = org_id \<and> d_channel_id d = c_uuid channel
                               \<and> d_location d = ''s3'') (DeployableVersion s)"
    and "p0 = \<lparr>pending = tasks, active = [], store = s, rejection = None\<rparr>"
    and "ps = limited_deletions e s tasks"
  shows "removeChannel_try e s org_id uuid =
     (case rejection (last (p0 # ps)) of
        Some err \<Rightarrow> (Inl err, map store ps)
      | None \<Rightarrow>
          (Inr \<lparr>rr_uuid = uuid, rr_success = True\<rparr>,
           map store ps @
             [(store (last (p0 # ps)))\<lparr>DeployableVersion :=
                 deleteMany (\<lambda>d. d_org_id d = org_id \<and> d_channel_id d = c_uuid channel)
                   (DeployableVersion (store (last (p0 # ps))))\<rparr>,
              (store (last (p0 # ps)))\<lparr>DeployableVersion :=
                 deleteMany (\<lambda>d. d_org_id d = org_id \<and> d_channel_id d = c_uuid channel)
                   (DeployableVersion (store (last (p0 # ps)))),
               Channel := deleteOne (\<lambda>c. c_org_id c = org_id \<and> c_uuid c = uuid)
                   (Channel (store (last (p0 # ps))))\<rparr>]))"
  using assms
  by (simp add: removeChannel_try_def Let_def cong: option.case_cong)

section \<open>removeChannel: the cascade\<close>

text \<open>
  What holds of the cascade. For a channel that is found, that the actor may delete and
  that no subscription refers to, \<^verbatim>\<open>removeChannel\<close> runs the object-store deletions of
  the channel's records tagged \<^verbatim>\<open>s3\<close> through the pool of \<^verbatim>\<open>pLimit(5)\<close>: in every
  state of the pool at most five deletions are running, whatever the order in which they
  settle. When one of the deletions fails, \<^verbatim>\<open>removeChannel\<close> fails, and in every state
  it passes through the version records and the channels are those it started with.
  When none fails, it succeeds; after the states of the pool, which leave records and
  channels as they were, it deletes all the version records of the channel, the channel
  still being there, and then the channel.
\<close>

lemma removeChannel_cascade_order:
  assumes "findOne (\<lambda>c. c_uuid c = uuid \<and> c_org_id c = org_id) (Channel s) = Some channel"
    and "validAuth e org_id DELETE CHANNEL ''removeChannel''
           (Some (c_uuid channel, c_name channel)) = None"
    and "count (\<lambda>u. s_org_id u = org_id \<and> s_channel_uuid u = c_uuid channel) (Subscription s) = 0"
    and "tasks = filter (\<lambda>d. d_org_id d = org_id \<and> d_channel_id d = c_uuid channel
                               \<and> d_location d = ''s3'') (DeployableVersion s)"
  shows "(\<forall>p \<in> set (limited_deletions e s tasks). length (active p) \<le> 5)
    \<and> ((\<exists>d \<in> set tasks. \<exists>err. deleteDeployableVersionFromS3 e s d = Inl err) \<longrightarrow>
          (\<exists>err. fst (removeChannel e s org_id uuid) = Inl err)
        \<and> snd (removeChannel e s org_id uuid) = map store (limited_deletions e s tasks)
        \<and> (\<forall>s' \<in> set (snd (removeChannel e s org_id uuid)).
              DeployableVersion s' = DeployableVersion s \<and> Channel s' = Channel s))
    \<and> ((\<forall>d \<in> set tasks. \<exists>s1. deleteDeployableVersionFromS3 e s d = Inr s1) \<longrightarrow>
          fst (removeChannel e s org_id uuid) = Inr \<lparr>rr_uuid = uuid, rr_success = True\<rparr>
        \<and> (\<exists>s2 s3.
              snd (removeChannel e s org_id uuid)
                = map store (limited_deletions e s tasks) @ [s2, s3]
            \<and> (\<forall>w \<in> set (map store (limited_deletions e s tasks)).
                  DeployableVersion w = DeployableVersion s \<and> Channel w = Channel s)
            \<and> DeployableVersion s2
                = deleteMany (\<lambda>d. d_org_id d = org_id \<and> d_channel_id d = c_uuid channel)
                    (DeployableVersion s)
            \<and> Channel s2 = Channel s
            \<and> DeployableVersion s3 = DeployableVersion s2
            \<and> Channel s3 = deleteOne (\<lambda>c. c_org_id c = org_id \<and> c_uuid c = uuid) (Channel s)))"
  (is "?bound \<and> (?some_fails \<longrightarrow> ?aborted) \<and> (?none_fails \<longrightarrow> ?cascaded)")
proof -
  define p0 where "p0 = \<lparr>pending = tasks, active = [], store = s, rejection = None\<rparr>"
  define ps where "ps = limited_deletions e s tasks"
  have run: "ps = run_pool e 5 (settle_order e) p0"
    by (simp add: ps_def p0_def limited_deletions_def)
  note body = removeChannel_try_cascade [OF assms p0_def ps_def]
  have result: "fst (removeChannel e s org_id uuid)
        = catch_mutation e ''removeChannel'' (fst (removeChannel_try e s org_id uuid))"
    and trace: "snd (removeChannel e s org_id uuid) = snd (removeChannel_try e s org_id uuid)"
    by (simp_all add: removeChannel_def Let_def)
  have bound: ?bound
    using run_pool_bound [of p0 5 e "settle_order e"]
    by (simp add: ps_def [symmetric] run p0_def)
  have keep: "\<forall>q \<in> set ps. Channel (store q) = Channel s
                \<and> DeployableVersion (store q) = DeployableVersion s"
    unfolding run by (rule run_pool_keeps) (simp add: p0_def)
  then have kept: "\<forall>w \<in> set (map store ps). DeployableVersion w = DeployableVersion s
                     \<and> Channel w = Channel s"
    by auto
  have at_end: "Channel (store (last (p0 # ps))) = Channel s
      \<and> DeployableVersion (store (last (p0 # ps))) = DeployableVersion s"
    using keep unfolding run
    by (intro run_pool_last
          [where I = "\<lambda>q. Channel (store q) = Channel s
                        \<and> DeployableVersion (store q) = DeployableVersion s"])
       (simp_all add: p0_def)
  have rejected: "rejection (last (p0 # ps)) = None \<longleftrightarrow>
      (\<forall>d \<in> set tasks. \<forall>err. deleteDeployableVersionFromS3 e s d \<noteq> Inl err)"
    unfolding run
    by (subst run_pool_rejection [where s = s]) (simp_all add: p0_def)
  have aborted: "?some_fails \<longrightarrow> ?aborted"
  proof
    assume ?some_fails
    with rejected obtain err where err: "rejection (last (p0 # ps)) = Some err"
      by (cases "rejection (last (p0 # ps))") auto
    have "removeChannel_try e s org_id uuid = (Inl err, map store ps)"
      unfolding body err by simp
    with kept show ?aborted
      by (simp add: result trace catch_mutation_def ps_def [symmetric])
  qed
  have cascaded: "?none_fails \<longrightarrow> ?cascaded"
  proof
    assume ?none_fails
    then have "\<forall>d \<in> set tasks. \<forall>err. deleteDeployableVersionFromS3 e s d \<noteq> Inl err"
      by auto
    with rejected have none: "rejection (last (p0 # ps)) = None"
      by simp
    define s2 where "s2 = (store (last (p0 # ps)))\<lparr>DeployableVersion :=
                 deleteMany (\<lambda>d. d_org_id d = org_id \<and> d_channel_id d = c_uuid channel)
                   (DeployableVersion (store (last (p0 # ps))))\<rparr>"
    define s3 where "s3 = (store (last (p0 # ps)))\<lparr>DeployableVersion :=
                 deleteMany (\<lambda>d. d_org_id d = org_id \<and> d_channel_id d = c_uuid channel)
                   (DeployableVersion (store (last (p0 # ps)))),
               Channel := deleteOne (\<lambda>c. c_org_id c = org_id \<and> c_uuid c = uuid)
                   (Channel (store (last (p0 # ps))))\<rparr>"
    have eq: "removeChannel_try e s org_id uuid
        = (Inr \<lparr>rr_uuid = uuid, rr_success = True\<rparr>, map store ps @ [s2, s3])"
      unfolding body none s2_def s3_def by simp
    have states: "DeployableVersion s2
                = deleteMany (\<lambda>d. d_org_id d = org_id \<and> d_channel_id d = c_uuid channel)
                    (DeployableVersion s)"
      "Channel s2 = Channel s"
      "DeployableVersion s3 = DeployableVersion s2"
      "Channel s3 = deleteOne (\<lambda>c. c_org_id c = org_id \<and> c_uuid c = uuid) (Channel s)"
      using at_end by (simp_all add: s2_def s3_def)
    have first: "fst (removeChannel e s org_id uuid) = Inr \<lparr>rr_uuid = uuid, rr_success = True\<rparr>"
      by (simp add: result eq catch_mutation_def)
    have rest: "\<exists>s2 s3.
              snd (removeChannel e s org_id uuid)
                = map store (limited_deletions e s tasks) @ [s2, s3]
            \<and> (\<forall>w \<in> set (map store (limited_deletions e s tasks)).
                  DeployableVersion w = DeployableVersion s \<and> Channel w = Channel s)
            \<and> DeployableVersion s2
                = deleteMany (\<lambda>d. d_org_id d = org_id \<and> d_channel_id d = c_uuid channel)
                    (DeployableVersion s)
            \<and> Channel s2 = Channel s
            \<and> DeployableVersion s3 = DeployableVersion s2
            \<and> Channel s3 = deleteOne (\<lambda>c. c_org_id c = org_id \<and> c_uuid c = uuid) (Channel s)"
      by (rule exI [of _ s2], rule exI [of _ s3])
         (use kept in \<open>simp only: trace eq snd_conv states ps_def [symmetric] simp_thms\<close>)
    from first rest show ?cascaded
      by (rule conjI)
  qed
  from bound aborted cascaded show ?thesis
    by (intro conjI)
qed

text \<open>Seven deletions: five are started, and each one that settles lets the next one start.\<close>

lemma limited_deletions_of_seven:
  "map (\<lambda>p. (length (pending p), length (active p)))
       (limited_deletions env_s3 (store_of [] [] [])
          (map (\<lambda>n. record2\<lparr>d_uuid := n\<rparr>) [''1'', ''2'', ''3'', ''4'', ''5'', ''6'', ''7'']))
     = [(6, 1), (5, 2), (4, 3), (3, 4), (2, 5), (2, 4), (1, 5), (1, 4), (0, 5), (0, 4),
        (0, 3), (0, 2), (0, 1), (0, 0)]"
  by (simp add: run_pool.simps eval_defs sample_defs)

lemma uploaded_store_eq:
  "uploaded_store =
     \<lparr>Organization = [org1],
      Channel =
        [channel1 [\<lparr>v_uuid = ''new-uuid'', v_name = ''my v'', v_description = None,
                    v_location = ''s3'', v_created = 7\<rparr>]],
      DeployableVersion =
        [\<lparr>d_id = ''new-id'', d_org_id = ''org1'', d_uuid = ''new-uuid'', d_channel_id = ''ch1'',
          d_channelName = ''payments'', d_name = ''my v'', d_description = None,
          d_location = ''s3'', d_content = ''https://s3.example/bucket/org1-ch1-my v'',
          d_iv = ''iv'', d_type = ''yaml'', d_ownerId = ''me'', d_kubeOwnerName = ''owner'',
          d_created = 7\<rparr>],
      Subscription = [], S3_buckets = [''bucket''],
      S3_objects = [((''bucket'', ''org1-ch1-my v''), ''1 :a'')]\<rparr>"
  by (simp add: uploaded_store_def addChannelVersion_def eval_defs sample_defs)

text \<open>
  C7. The claim fails on the code where it says that the payloads are deleted. With the
  object store configured, the version \<^verbatim>\<open>my v\<close> is added: its payload is uploaded
  under the key \<^verbatim>\<open>org1-ch1-my v\<close>, the record holds the locator, and
  \<^verbatim>\<open>channelVersion\<close>, which decodes the path of the locator, reads the payload back.
  \<^verbatim>\<open>deleteDeployableVersionFromS3\<close> does not decode the path: it asks for the deletion
  of \<^verbatim>\<open>org1-ch1-my%20v\<close>, which is no object, and succeeds. So \<^verbatim>\<open>removeChannel\<close>
  succeeds and deletes the record and the channel, and the payload is still in the
  object store; \<^verbatim>\<open>removeChannelVersion\<close>, which calls the same function, leaves it
  there as well.
\<close>

theorem removeChannel_leaves_uploaded_payload:
  "fst (addChannelVersion env_s3 fresh_store ''org1'' ''ch1'' ''my v'' ''yaml'' (Some ''a: 1'')
          None None)
     = Inr \<lparr>ar_success = True, ar_versionUuid = ''new-uuid''\<rparr>
   \<and> map (\<lambda>d. (d_uuid d, d_location d, d_content d)) (DeployableVersion uploaded_store)
     = [(''new-uuid'', ''s3'', ''https://s3.example/bucket/org1-ch1-my v'')]
   \<and> S3_objects uploaded_store = [((''bucket'', ''org1-ch1-my v''), ''1 :a'')]
   \<and> map_sum id d_content
       (Query_channelVersion env_s3 uploaded_store ''org1'' (Some ''ch1'') (Some ''new-uuid'')
          None None None)
     = Inr ''a: 1''
   \<and> deleteDeployableVersionFromS3 env_s3 uploaded_store (hd (DeployableVersion uploaded_store))
     = Inr uploaded_store
   \<and> fst (removeChannel env_s3 uploaded_store ''org1'' ''ch1'')
     = Inr \<lparr>rr_uuid = ''ch1'', rr_success = True\<rparr>
   \<and> DeployableVersion (final uploaded_store (removeChannel env_s3 uploaded_store ''org1'' ''ch1''))
     = []
   \<and> Channel (final uploaded_store (removeChannel env_s3 uploaded_store ''org1'' ''ch1'')) = []
   \<and> S3_objects (final uploaded_store (removeChannel env_s3 uploaded_store ''org1'' ''ch1''))
     = [((''bucket'', ''org1-ch1-my v''), ''1 :a'')]
   \<and> fst (removeChannelVersion env_s3 uploaded_store ''org1'' ''new-uuid'')
     = Inr \<lparr>rr_uuid = ''new-uuid'', rr_success = True\<rparr>
   \<and> S3_objects
       (final uploaded_store (removeChannelVersion env_s3 uploaded_store ''org1'' ''new-uuid''))
     = [((''bucket'', ''org1-ch1-my v''), ''1 :a'')]"
proof -
  have added: "fst (addChannelVersion env_s3 fresh_store ''org1'' ''ch1'' ''my v'' ''yaml''
                      (Some ''a: 1'') None None)
      = Inr \<lparr>ar_success = True, ar_versionUuid = ''new-uuid''\<rparr>"
    by (simp add: addChannelVersion_def eval_defs sample_defs)
  have stored: "map (\<lambda>d. (d_uuid d, d_location d, d_content d)) (DeployableVersion uploaded_store)
      = [(''new-uuid'', ''s3'', ''https://s3.example/bucket/org1-ch1-my v'')]"
    "S3_objects uploaded_store = [((''bucket'', ''org1-ch1-my v''), ''1 :a'')]"
    by (simp_all add: uploaded_store_eq)
  have read: "map_sum id d_content
       (Query_channelVersion env_s3 uploaded_store ''org1'' (Some ''ch1'') (Some ''new-uuid'')
          None None None)
     = Inr ''a: 1''"
    by (simp add: uploaded_store_eq Query_channelVersion_def channelVersion_try_def eval_defs
        sample_defs)
  have deletion: "deleteDeployableVersionFromS3 env_s3 uploaded_store
        (hd (DeployableVersion uploaded_store)) = Inr uploaded_store"
    by (simp add: uploaded_store_eq eval_defs sample_defs)
  have removed: "fst (removeChannel env_s3 uploaded_store ''org1'' ''ch1'')
      = Inr \<lparr>rr_uuid = ''ch1'', rr_success = True\<rparr>"
    "DeployableVersion (final uploaded_store (removeChannel env_s3 uploaded_store ''org1'' ''ch1''))
      = []"
    "Channel (final uploaded_store (removeChannel env_s3 uploaded_store ''org1'' ''ch1'')) = []"
    "S3_objects (final uploaded_store (removeChannel env_s3 uploaded_store ''org1'' ''ch1''))
      = [((''bucket'', ''org1-ch1-my v''), ''1 :a'')]"
    by (simp_all add: uploaded_store_eq removeChannel_def removeChannel_try_def run_pool.simps
        eval_defs sample_defs)
  have removed_version: "fst (removeChannelVersion env_s3 uploaded_store ''org1'' ''new-uuid'')
      = Inr \<lparr>rr_uuid = ''new-uuid'', rr_success = True\<rparr>"
    "S3_objects
       (final uploaded_store (removeChannelVersion env_s3 uploaded_store ''org1'' ''new-uuid''))
      = [((''bucket'', ''org1-ch1-my v''), ''1 :a'')]"
    by (simp_all add: uploaded_store_eq removeChannelVersion_def removeChannelVersion_try_def
        eval_defs sample_defs)
  from added stored read deletion removed removed_version show ?thesis
    by (intro conjI)
qed

end
